theory Spec2Isabelle
  imports Complex_Main "HOL-Library.AList"
begin

section \<open>JavaScript values\<close>

text \<open>
  The frontend exchanges JSON with the backend: every payload that reaches a handler is
  the result of \<^verbatim>\<open>JSON.parse\<close>, a finite tree without sharing. Numbers are modelled as
  integers (server ids, attempt counts and millisecond timestamps are integers, and doubles
  are exact on them below \<open>2^53\<close>). An object is an association list of its own properties
  in insertion order.
\<close>

datatype jsval =
    JUndefined
  | JNull
  | JBool bool
  | JNum int
  | JStr string
  | JArr "jsval list"
  | JObj "(string \<times> jsval) list"

type_synonym js_object = "(string \<times> jsval) list"

datatype js_error = TypeError | SyntaxError | InvalidStateError

text \<open>\<^verbatim>\<open>!v\<close> is true for \<^verbatim>\<open>undefined\<close>, \<^verbatim>\<open>null\<close>, \<^verbatim>\<open>false\<close>, \<^verbatim>\<open>0\<close> and the empty string.\<close>

fun truthy :: "jsval \<Rightarrow> bool" where
  "truthy JUndefined = False"
| "truthy JNull = False"
| "truthy (JBool b) = b"
| "truthy (JNum n) = (n \<noteq> 0)"
| "truthy (JStr s) = (s \<noteq> [])"
| "truthy (JArr xs) = True"
| "truthy (JObj kvs) = True"

text \<open>\<^verbatim>\<open>a || b\<close>\<close>

definition js_or :: "jsval \<Rightarrow> jsval \<Rightarrow> jsval" where
  "js_or a b = (if truthy a then a else b)"

definition nullish :: "jsval \<Rightarrow> bool" where
  "nullish v = (v = JUndefined \<or> v = JNull)"

text \<open>
  \<^verbatim>\<open>v.k\<close> for a value that is neither \<^verbatim>\<open>null\<close> nor \<^verbatim>\<open>undefined\<close>, and for the property
  names this program reads (\<^verbatim>\<open>type\<close>, \<^verbatim>\<open>data\<close>, \<^verbatim>\<open>id\<close>, \<^verbatim>\<open>server_id\<close>, ...): an own property
  of an object, \<^verbatim>\<open>undefined\<close> otherwise.
\<close>

definition get_o :: "js_object \<Rightarrow> string \<Rightarrow> jsval" where
  "get_o kvs k = (case map_of kvs k of Some v \<Rightarrow> v | None \<Rightarrow> JUndefined)"

fun get :: "jsval \<Rightarrow> string \<Rightarrow> jsval" where
  "get (JObj kvs) k = get_o kvs k"
| "get v k = JUndefined"

text \<open>\<^verbatim>\<open>v.k\<close> in general: reading a property of \<^verbatim>\<open>null\<close> or \<^verbatim>\<open>undefined\<close> throws a TypeError.\<close>

definition read_prop :: "jsval \<Rightarrow> string \<Rightarrow> js_error + jsval" where
  "read_prop v k = (if nullish v then Inl TypeError else Inr (get v k))"

text \<open>
  \<^verbatim>\<open>a === b\<close> where one operand comes from a freshly parsed message: primitives are compared
  by value, an object or array is never identical to a fresh one.
\<close>

fun strict_eq :: "jsval \<Rightarrow> jsval \<Rightarrow> bool" where
  "strict_eq (JArr xs) b = False"
| "strict_eq (JObj kvs) b = False"
| "strict_eq a b = (a = b)"

subsection \<open>Conversion to strings\<close>

definition digit_char :: "nat \<Rightarrow> char" where
  "digit_char d = ''0123456789'' ! (d mod 10)"

function show_nat :: "nat \<Rightarrow> string" where
  "show_nat n = (if n < 10 then [digit_char n] else show_nat (n div 10) @ [digit_char (n mod 10)])"
  by pat_completeness auto
termination
  by (relation "measure id") auto

declare show_nat.simps [simp del]

definition show_int :: "int \<Rightarrow> string" where
  "show_int i = (if i < 0 then CHR ''-'' # show_nat (nat (- i)) else show_nat (nat i))"

fun join_comma :: "string list \<Rightarrow> string" where
  "join_comma [] = []"
| "join_comma [s] = s"
| "join_comma (s # t # ss) = s @ CHR '','' # join_comma (t # ss)"

text \<open>
  \<^verbatim>\<open>String(v)\<close>, which is also how a value becomes a property key. An integer prints in
  decimal (JavaScript turns to exponent notation only from \<open>10^21\<close> on).
\<close>

fun js_to_string :: "jsval \<Rightarrow> string" where
  "js_to_string JUndefined = ''undefined''"
| "js_to_string JNull = ''null''"
| "js_to_string (JBool b) = (if b then ''true'' else ''false'')"
| "js_to_string (JNum n) = show_int n"
| "js_to_string (JStr s) = s"
| "js_to_string (JArr xs) =
     join_comma (map (\<lambda>x. if nullish x then [] else js_to_string x) xs)"
| "js_to_string (JObj kvs) = ''[object Object]''"

text \<open>
  The own enumerable properties that \<^verbatim>\<open>{...v}\<close> copies: those of an object, the indexed
  elements of an array or string, none of any other value.
\<close>

fun own_props :: "jsval \<Rightarrow> js_object" where
  "own_props (JObj kvs) = kvs"
| "own_props (JArr xs) = zip (map show_nat [0..<length xs]) xs"
| "own_props (JStr s) = zip (map show_nat [0..<length s]) (map (\<lambda>c. JStr [c]) s)"
| "own_props v = []"

text \<open>\<^verbatim>\<open>{...a, ...v}\<close>: the properties of \<open>v\<close> are written over those of \<open>a\<close>, in order.\<close>

definition spread_over :: "js_object \<Rightarrow> jsval \<Rightarrow> js_object" where
  "spread_over a v = fold (\<lambda>(k, x). AList.update k x) (own_props v) a"

section \<open>AlertManager (components/AlertManager.js)\<close>

text \<open>
  The component state \<^verbatim>\<open>alerts\<close> is a list of alert objects. Each operation is the function
  the source passes to \<^verbatim>\<open>setAlerts\<close>, applied to the previous list. An operation that reads
  a property of an \<^verbatim>\<open>alertData\<close> that is \<^verbatim>\<open>null\<close> or \<^verbatim>\<open>undefined\<close> throws; it then produces
  no new list.
\<close>

type_synonym alert = js_object

text \<open>
  Lines 50-60. \<open>now\<close> is \<^verbatim>\<open>Date.now()\<close> and \<open>nowIso\<close> is \<^verbatim>\<open>new Date().toISOString()\<close> at the
  time of the call.
\<close>

definition newAlert :: "int \<Rightarrow> string \<Rightarrow> jsval \<Rightarrow> alert" where
  "newAlert now nowIso alertData =
    [(''id'', js_or (get alertData ''id'') (JNum now)),
     (''title'', js_or (get alertData ''title'') (JStr ''Server Alert'')),
     (''message'', js_or (get alertData ''message'') (JStr ''A new alert has been triggered'')),
     (''severity'', js_or (get alertData ''severity'') (JStr ''info'')),
     (''server_name'', get alertData ''server_name''),
     (''server_id'', get alertData ''server_id''),
     (''created_at'', js_or (get alertData ''created_at'') (JStr nowIso)),
     (''acknowledged'', JBool False),
     (''status'', JStr ''active'')]"

text \<open>Line 62: \<^verbatim>\<open>[newAlert, ...prev].slice(0, 10)\<close>.\<close>

definition handleNewAlert :: "int \<Rightarrow> string \<Rightarrow> jsval \<Rightarrow> alert list \<Rightarrow> js_error + alert list" where
  "handleNewAlert now nowIso alertData prev =
    (if nullish alertData then Inl TypeError
     else Inr (take 10 (newAlert now nowIso alertData # prev)))"

text \<open>
  Lines 74-90. The callback of \<^verbatim>\<open>map\<close> reads \<^verbatim>\<open>alertData.id\<close>, so it throws on the first
  element when \<^verbatim>\<open>alertData\<close> is \<^verbatim>\<open>null\<close> or \<^verbatim>\<open>undefined\<close>; on an empty list it never runs.
\<close>

definition handleAlertResolved :: "jsval \<Rightarrow> alert list \<Rightarrow> js_error + alert list" where
  "handleAlertResolved alertData prev =
    (if prev \<noteq> [] \<and> nullish alertData then Inl TypeError
     else Inr (map (\<lambda>alert.
        if strict_eq (get_o alert ''id'') (get alertData ''id'')
        then AList.update ''resolved_at'' (get alertData ''resolved_at'')
               (AList.update ''status'' (JStr ''resolved'') alert)
        else alert) prev))"

definition handleAlertUpdated :: "jsval \<Rightarrow> alert list \<Rightarrow> js_error + alert list" where
  "handleAlertUpdated alertData prev =
    (if prev \<noteq> [] \<and> nullish alertData then Inl TypeError
     else Inr (map (\<lambda>alert.
        if strict_eq (get_o alert ''id'') (get alertData ''id'')
        then spread_over alert alertData
        else alert) prev))"

text \<open>
  Lines 92-104. The argument is the alert object the notification was rendered from, an
  element of the list. The tree model has no object identity, so the ids are compared as
  values; the ids of this program are numbers and strings, where that is \<^verbatim>\<open>===\<close>.
\<close>

definition handleAcknowledgeAlert :: "string \<Rightarrow> alert \<Rightarrow> alert list \<Rightarrow> alert list" where
  "handleAcknowledgeAlert nowIso alert prev =
    map (\<lambda>a.
      if get_o a ''id'' = get_o alert ''id''
      then AList.update ''acknowledged_at'' (JStr nowIso)
             (AList.update ''acknowledged'' (JBool True) a)
      else a) prev"

definition handleDismissAlert :: "alert \<Rightarrow> alert list \<Rightarrow> alert list" where
  "handleDismissAlert alert prev = filter (\<lambda>a. get_o a ''id'' \<noteq> get_o alert ''id'') prev"

text \<open>
  \<^verbatim>\<open>new Date(v)\<close> as a time value in milliseconds, \<open>None\<close> for an invalid date (a number
  is a valid time value up to 8.64e15 in magnitude). \<open>parseDate\<close> is \<^verbatim>\<open>Date.parse\<close> on
  strings.
\<close>

definition to_time :: "(string \<Rightarrow> int option) \<Rightarrow> jsval \<Rightarrow> int option" where
  "to_time parseDate v =
    (case v of
       JUndefined \<Rightarrow> None
     | JNull \<Rightarrow> Some 0
     | JBool b \<Rightarrow> Some (if b then 1 else 0)
     | JNum n \<Rightarrow> if \<bar>n\<bar> \<le> 8640000000000000 then Some n else None
     | _ \<Rightarrow> parseDate (js_to_string v))"

text \<open>Lines 122-132, the timer callback; \<open>now\<close> is \<^verbatim>\<open>new Date()\<close> in milliseconds.\<close>

definition keepAlert :: "(string \<Rightarrow> int option) \<Rightarrow> int \<Rightarrow> alert \<Rightarrow> bool" where
  "keepAlert parseDate now alert =
    (if get_o alert ''status'' = JStr ''resolved''
     then (case to_time parseDate (js_or (get_o alert ''resolved_at'') (get_o alert ''updated_at'')) of
             None \<Rightarrow> False
           | Some resolvedTime \<Rightarrow> now - resolvedTime < 30000)
     else True)"

definition autoRemoveResolved :: "(string \<Rightarrow> int option) \<Rightarrow> int \<Rightarrow> alert list \<Rightarrow> alert list" where
  "autoRemoveResolved parseDate now prev = filter (keepAlert parseDate now) prev"

text \<open>
  The operations that change the list, and the list that a run of them reaches from a
  given one. A throw inside \<^verbatim>\<open>handleNewAlert\<close> happens before \<^verbatim>\<open>setAlerts\<close> and is caught by
  the caller in the WebSocket service, so the list stays as it was and the run goes on; a
  throw inside an updater ends the run with the list as it was.
\<close>

datatype alert_op =
    NewAlert int string jsval
  | AlertResolved jsval
  | AlertUpdated jsval
  | AcknowledgeAlert string alert
  | DismissAlert alert
  | AutoRemove "string \<Rightarrow> int option" int

fun apply_alert_op :: "alert_op \<Rightarrow> alert list \<Rightarrow> js_error + alert list" where
  "apply_alert_op (NewAlert now nowIso d) prev =
     (case handleNewAlert now nowIso d prev of Inl e \<Rightarrow> Inr prev | Inr new \<Rightarrow> Inr new)"
| "apply_alert_op (AlertResolved d) prev = handleAlertResolved d prev"
| "apply_alert_op (AlertUpdated d) prev = handleAlertUpdated d prev"
| "apply_alert_op (AcknowledgeAlert nowIso a) prev = Inr (handleAcknowledgeAlert nowIso a prev)"
| "apply_alert_op (DismissAlert a) prev = Inr (handleDismissAlert a prev)"
| "apply_alert_op (AutoRemove parseDate now) prev = Inr (autoRemoveResolved parseDate now prev)"

fun run_alert_ops :: "alert_op list \<Rightarrow> alert list \<Rightarrow> alert list" where
  "run_alert_ops [] alerts = alerts"
| "run_alert_ops (op # ops) alerts =
     (case apply_alert_op op alerts of Inl e \<Rightarrow> alerts | Inr alerts' \<Rightarrow> run_alert_ops ops alerts')"

section \<open>WebSocketService (utils/websocketService.js)\<close>

text \<open>
  A registered handler is a JavaScript function, compared by identity in \<^verbatim>\<open>offMessage\<close>;
  it is modelled by a number that names it. What a handler does when called is outside the
  service: the service only sees whether the call returns or throws, which the parameter
  \<open>hb\<close> (handler behaviour) of the dispatching functions gives. Handlers of this program set
  component state or start a fetch; none calls back into the service while it dispatches.
\<close>

type_synonym handler = nat

datatype ready_state = CONNECTING | OPEN | CLOSING | CLOSED

text \<open>
  What \<^verbatim>\<open>sendMessage\<close> is given: a string, a value that \<^verbatim>\<open>JSON.stringify\<close> accepts, or one
  it rejects with a TypeError (a cyclic object, a BigInt). A frame is what reaches
  \<^verbatim>\<open>socket.send\<close>: the string itself, or the JSON text of the value.
\<close>

datatype out_message = OutString string | OutValue jsval | OutCyclic

datatype frame = Raw string | Json jsval

record web_socket =
  readyState :: ready_state
  send_throws :: "frame \<Rightarrow> bool"

datatype log_level = LogInfo | LogWarn | LogError

datatype timer_action = Reconnect | Heartbeat

text \<open>The observable effects of the service, in the order they happen.\<close>

datatype event =
    Logged log_level string
  | Sent frame
  | Invoked handler jsval
  | SetTimeout timer_action nat
  | SetInterval timer_action nat
  | ClearInterval
  | NewSocket string
  | CloseSocket
  | ResolveConnection

datatype 'a completion = Returned 'a | Threw js_error

record ws_service =
  socket :: "web_socket option"
  reconnectInterval :: nat
  maxReconnectAttempts :: nat
  reconnectAttempts :: nat
  messageHandlers :: "(string \<times> handler list) list"
  isConnected :: bool
  connectionResolve :: bool
  subscriptions :: "string list"
  heartbeatInterval :: bool
  lastPingTime :: "int option"
  backendUrl :: string

text \<open>Lines 5-18. \<^verbatim>\<open>subscriptions\<close> is a \<^verbatim>\<open>Set\<close>: a duplicate-free list in insertion order.\<close>

definition new_WebSocketService :: ws_service where
  "new_WebSocketService =
    \<lparr> socket = None, reconnectInterval = 5000, maxReconnectAttempts = 10,
      reconnectAttempts = 0, messageHandlers = [], isConnected = False,
      connectionResolve = False, subscriptions = [], heartbeatInterval = False,
      lastPingTime = None, backendUrl = ''ws://localhost:8000/ws'' \<rparr>"

text \<open>Running one step after another; a throw ends the sequence.\<close>

definition and_then ::
  "unit completion \<times> 's \<times> event list \<Rightarrow> ('s \<Rightarrow> unit completion \<times> 's \<times> event list)
     \<Rightarrow> unit completion \<times> 's \<times> event list" where
  "and_then r f =
    (case r of
       (Threw e, s, evs) \<Rightarrow> (Threw e, s, evs)
     | (Returned u, s, evs) \<Rightarrow> (case f s of (c, s', evs') \<Rightarrow> (c, s', evs @ evs')))"

subsection \<open>sendMessage\<close>

text \<open>
  Line 171: a string is sent as it is, any other message as its JSON text; \<open>None\<close> when
  \<^verbatim>\<open>JSON.stringify\<close> throws.
\<close>

definition frame_of :: "out_message \<Rightarrow> frame option" where
  "frame_of message =
    (case message of OutString s \<Rightarrow> Some (Raw s) | OutValue v \<Rightarrow> Some (Json v) | OutCyclic \<Rightarrow> None)"

text \<open>Lines 171-174, the body of the \<^verbatim>\<open>try\<close>.\<close>

definition send_body :: "web_socket \<Rightarrow> out_message \<Rightarrow> unit completion \<times> event list" where
  "send_body sock message =
    (case frame_of message of
       None \<Rightarrow> (Threw TypeError, [])
     | Some jsonMessage \<Rightarrow>
         if send_throws sock jsonMessage then (Threw InvalidStateError, [])
         else (Returned (), [Sent jsonMessage, Logged LogInfo ''WebSocket message sent:'']))"

text \<open>Lines 164-179.\<close>

definition sendMessage :: "ws_service \<Rightarrow> out_message \<Rightarrow> bool completion \<times> event list" where
  "sendMessage ws message =
    (case socket ws of
       None \<Rightarrow> (Returned False, [Logged LogWarn ''WebSocket not connected. Message not sent:''])
     | Some sock \<Rightarrow>
         if readyState sock \<noteq> OPEN
         then (Returned False, [Logged LogWarn ''WebSocket not connected. Message not sent:''])
         else (case send_body sock message of
                 (Returned u, evs) \<Rightarrow> (Returned True, evs)
               | (Threw e, evs) \<Rightarrow>
                   (Returned False, evs @ [Logged LogError ''Error sending WebSocket message:''])))"

subsection \<open>Subscriptions\<close>

definition set_add :: "string \<Rightarrow> string list \<Rightarrow> string list" where
  "set_add s subs = (if s \<in> set subs then subs else subs @ [s])"

definition set_delete :: "string \<Rightarrow> string list \<Rightarrow> string list" where
  "set_delete s subs = filter (\<lambda>x. x \<noteq> s) subs"

text \<open>
  Lines 121 and 137. The server id is the route parameter, a string; \<open>None\<close> is the default
  \<^verbatim>\<open>null\<close>. An empty string is falsy.
\<close>

definition subscription_key :: "string \<Rightarrow> string option \<Rightarrow> string" where
  "subscription_key subscriptionType serverId =
    (case serverId of
       None \<Rightarrow> subscriptionType
     | Some sid \<Rightarrow> if sid \<noteq> [] then subscriptionType @ CHR '':'' # sid else subscriptionType)"

definition server_id_value :: "string option \<Rightarrow> jsval" where
  "server_id_value serverId = (case serverId of None \<Rightarrow> JNull | Some sid \<Rightarrow> JStr sid)"

definition subscribe_message :: "string \<Rightarrow> jsval \<Rightarrow> jsval" where
  "subscribe_message subscriptionType serverId =
    JObj [(''type'', JStr ''subscribe''), (''subscription'', JStr subscriptionType),
          (''server_id'', serverId)]"

definition unsubscribe_message :: "string \<Rightarrow> jsval \<Rightarrow> jsval" where
  "unsubscribe_message subscriptionType serverId =
    JObj [(''type'', JStr ''unsubscribe''), (''subscription'', JStr subscriptionType),
          (''server_id'', serverId)]"

text \<open>Lines 120-133.\<close>

definition subscribe :: "string \<Rightarrow> string option \<Rightarrow> ws_service \<Rightarrow> ws_service \<times> event list" where
  "subscribe subscriptionType serverId ws =
    (let ws' = ws\<lparr>subscriptions := set_add (subscription_key subscriptionType serverId) (subscriptions ws)\<rparr>
     in (ws',
         (if isConnected ws'
          then snd (sendMessage ws' (OutValue (subscribe_message subscriptionType (server_id_value serverId))))
          else [])
         @ [Logged LogInfo ''Subscribed to:'']))"

text \<open>Lines 136-149.\<close>

definition unsubscribe :: "string \<Rightarrow> string option \<Rightarrow> ws_service \<Rightarrow> ws_service \<times> event list" where
  "unsubscribe subscriptionType serverId ws =
    (let ws' = ws\<lparr>subscriptions := set_delete (subscription_key subscriptionType serverId) (subscriptions ws)\<rparr>
     in (ws',
         (if isConnected ws'
          then snd (sendMessage ws' (OutValue (unsubscribe_message subscriptionType (server_id_value serverId))))
          else [])
         @ [Logged LogInfo ''Unsubscribed from:'']))"

text \<open>\<^verbatim>\<open>s.split(':')\<close>: the pieces between the colons, at least one.\<close>

fun split_colon :: "string \<Rightarrow> string list" where
  "split_colon [] = [[]]"
| "split_colon (c # cs) =
     (if c = CHR '':'' then [] # split_colon cs
      else (case split_colon cs of
              [] \<Rightarrow> [[c]]
            | p # ps \<Rightarrow> (c # p) # ps))"

text \<open>
  Lines 154-159: \<^verbatim>\<open>const [type, serverId] = subscription.split(':')\<close>, where a missing second
  piece leaves \<^verbatim>\<open>serverId\<close> undefined, and the message built from the two.
\<close>

definition resubscribe_message :: "string \<Rightarrow> jsval" where
  "resubscribe_message subscription =
    (let parts = split_colon subscription;
         type = (case parts of [] \<Rightarrow> JUndefined | t # rest \<Rightarrow> JStr t);
         serverId = (case parts of t # sid # rest \<Rightarrow> JStr sid | _ \<Rightarrow> JUndefined)
     in JObj [(''type'', JStr ''subscribe''), (''subscription'', type),
              (''server_id'', if serverId = type then JNull else serverId)])"

text \<open>Lines 152-161.\<close>

definition resubscribeAll :: "ws_service \<Rightarrow> event list" where
  "resubscribeAll ws =
    concat (map (\<lambda>subscription. snd (sendMessage ws (OutValue (resubscribe_message subscription))))
              (subscriptions ws))"

subsection \<open>Message handlers\<close>

text \<open>
  \<^verbatim>\<open>messageHandlers\<close> is a plain object created by \<^verbatim>\<open>{}\<close>. Reading \<^verbatim>\<open>messageHandlers[k]\<close>
  finds an own property (an array of handlers), or else a property inherited from
  \<^verbatim>\<open>Object.prototype\<close>, which is a function or object and so truthy but no array, or else
  \<^verbatim>\<open>undefined\<close>.
\<close>

definition object_prototype_keys :: "string list" where
  "object_prototype_keys =
    [''constructor'', ''__proto__'', ''hasOwnProperty'', ''isPrototypeOf'',
     ''propertyIsEnumerable'', ''toLocaleString'', ''toString'', ''valueOf'',
     ''__defineGetter__'', ''__defineSetter__'', ''__lookupGetter__'', ''__lookupSetter__'']"

datatype registry_entry = Absent | Handlers "handler list" | Inherited

definition lookup_handlers :: "(string \<times> handler list) list \<Rightarrow> string \<Rightarrow> registry_entry" where
  "lookup_handlers mh k =
    (case map_of mh k of
       Some hs \<Rightarrow> Handlers hs
     | None \<Rightarrow> if k \<in> set object_prototype_keys then Inherited else Absent)"

text \<open>Lines 182-187. \<^verbatim>\<open>push\<close> is not a function of an inherited property.\<close>

definition onMessage :: "string \<Rightarrow> handler \<Rightarrow> ws_service \<Rightarrow> unit completion \<times> ws_service" where
  "onMessage type handler ws =
    (case lookup_handlers (messageHandlers ws) type of
       Absent \<Rightarrow> (Returned (), ws\<lparr>messageHandlers := AList.update type [handler] (messageHandlers ws)\<rparr>)
     | Handlers hs \<Rightarrow>
         (Returned (), ws\<lparr>messageHandlers := AList.update type (hs @ [handler]) (messageHandlers ws)\<rparr>)
     | Inherited \<Rightarrow> (Threw TypeError, ws))"

text \<open>Lines 190-194. \<^verbatim>\<open>filter\<close> is not a function of an inherited property.\<close>

definition offMessage :: "string \<Rightarrow> handler \<Rightarrow> ws_service \<Rightarrow> unit completion \<times> ws_service" where
  "offMessage type handler ws =
    (case lookup_handlers (messageHandlers ws) type of
       Absent \<Rightarrow> (Returned (), ws)
     | Handlers hs \<Rightarrow>
         (Returned (),
          ws\<lparr>messageHandlers := AList.update type (filter (\<lambda>h. h \<noteq> handler) hs) (messageHandlers ws)\<rparr>)
     | Inherited \<Rightarrow> (Threw TypeError, ws))"

text \<open>
  One pass of \<^verbatim>\<open>forEach\<close> with the \<^verbatim>\<open>try\<close>/\<^verbatim>\<open>catch\<close> around each call: the handler is called,
  and if it throws the error is logged under \<open>tag\<close>.
\<close>

definition call_handler :: "(handler \<Rightarrow> jsval \<Rightarrow> bool) \<Rightarrow> jsval \<Rightarrow> string \<Rightarrow> handler \<Rightarrow> event list" where
  "call_handler hb arg tag h = Invoked h arg # (if hb h arg then [Logged LogError tag] else [])"

text \<open>
  \<^verbatim>\<open>if (this.messageHandlers[k]) { this.messageHandlers[k].forEach(...) }\<close>, as it occurs
  for the key \<open>k\<close> at lines 220, 257, 271, 285, 299, 313 and 327.
\<close>

definition notify ::
  "(handler \<Rightarrow> jsval \<Rightarrow> bool) \<Rightarrow> string \<Rightarrow> jsval \<Rightarrow> string \<Rightarrow> ws_service
     \<Rightarrow> unit completion \<times> ws_service \<times> event list" where
  "notify hb k arg tag ws =
    (case lookup_handlers (messageHandlers ws) k of
       Absent \<Rightarrow> (Returned (), ws, [])
     | Handlers hs \<Rightarrow> (Returned (), ws, concat (map (call_handler hb arg tag) hs))
     | Inherited \<Rightarrow> (Threw TypeError, ws, []))"

text \<open>Lines 206-233, the first \<^verbatim>\<open>switch\<close>. \<open>now\<close> is \<^verbatim>\<open>Date.now()\<close>.\<close>

definition system_messages ::
  "(handler \<Rightarrow> jsval \<Rightarrow> bool) \<Rightarrow> int \<Rightarrow> jsval \<Rightarrow> ws_service
     \<Rightarrow> unit completion \<times> ws_service \<times> event list" where
  "system_messages hb now message ws =
    (let type = get message ''type'' in
     if type = JStr ''pong''
       then (Returned (), ws\<lparr>lastPingTime := Some now\<rparr>, [Logged LogInfo ''Received pong from server''])
     else if type = JStr ''subscribed''
       then (Returned (), ws, [Logged LogInfo ''Successfully subscribed to:''])
     else if type = JStr ''unsubscribed''
       then (Returned (), ws, [Logged LogInfo ''Successfully unsubscribed from:''])
     else if type = JStr ''error''
       then and_then (Returned (), ws, [Logged LogError ''Server error:''])
              (notify hb ''error'' message ''Error in error handler:'')
     else if type = JStr ''connection_failed''
       then (case read_prop (get message ''data'') ''attempts'' of
               Inl e \<Rightarrow> (Threw e, ws, [])
             | Inr attempts \<Rightarrow> (Returned (), ws, [Logged LogError ''WebSocket connection failed after'']))
     else (Returned (), ws, []))"

text \<open>
  Lines 236-254, the second \<^verbatim>\<open>switch\<close>, with the methods it calls (lines 269-336). Each
  passes \<^verbatim>\<open>message.data\<close> to the handlers registered for the message type.
\<close>

definition realtime_updates ::
  "(handler \<Rightarrow> jsval \<Rightarrow> bool) \<Rightarrow> jsval \<Rightarrow> ws_service \<Rightarrow> unit completion \<times> ws_service \<times> event list" where
  "realtime_updates hb message ws =
    (let type = get message ''type''; data = get message ''data'' in
     if type = JStr ''server_status_update''
       then and_then (Returned (), ws, [Logged LogInfo ''Server status update:''])
              (notify hb ''server_status_update'' data ''Error in server status handler:'')
     else if type = JStr ''server_metrics_update''
       then and_then (Returned (), ws, [Logged LogInfo ''Server metrics update:''])
              (notify hb ''server_metrics_update'' data ''Error in server metrics handler:'')
     else if type = JStr ''alert_created''
       then and_then (Returned (), ws, [Logged LogInfo ''New alert created:''])
              (notify hb ''alert_created'' data ''Error in alert created handler:'')
     else if type = JStr ''alert_resolved''
       then and_then (Returned (), ws, [Logged LogInfo ''Alert resolved:''])
              (notify hb ''alert_resolved'' data ''Error in alert resolved handler:'')
     else if type = JStr ''server_created'' \<or> type = JStr ''server_updated'' \<or> type = JStr ''server_deleted''
       then and_then (Returned (), ws, [Logged LogInfo ''Server change:''])
              (notify hb (js_to_string type) data ''Error in server change handler:'')
     else (Returned (), ws, []))"

text \<open>Lines 257-265: the handlers registered for the message type receive the whole message.\<close>

definition custom_handlers ::
  "(handler \<Rightarrow> jsval \<Rightarrow> bool) \<Rightarrow> jsval \<Rightarrow> ws_service \<Rightarrow> unit completion \<times> ws_service \<times> event list" where
  "custom_handlers hb message ws =
    notify hb (js_to_string (get message ''type'')) message ''Error in message handler:'' ws"

text \<open>
  Lines 197-266. In \<^verbatim>\<open>!message || !message.type\<close> the type is read only when the message
  is truthy.
\<close>

definition handleMessage ::
  "(handler \<Rightarrow> jsval \<Rightarrow> bool) \<Rightarrow> int \<Rightarrow> jsval \<Rightarrow> ws_service
     \<Rightarrow> unit completion \<times> ws_service \<times> event list" where
  "handleMessage hb now message ws =
    (if \<not> truthy message then (Returned (), ws, [Logged LogWarn ''Invalid message format:''])
     else if \<not> truthy (get message ''type'')
     then (Returned (), ws, [Logged LogWarn ''Invalid message format:''])
     else and_then
            (and_then
               (and_then (Returned (), ws, [Logged LogInfo ''WebSocket message received:''])
                  (system_messages hb now message))
               (realtime_updates hb message))
            (custom_handlers hb message))"

text \<open>
  Lines 54-64. \<open>parsed\<close> is the outcome of \<^verbatim>\<open>JSON.parse(event.data)\<close>; whatever is thrown
  inside the \<^verbatim>\<open>try\<close> is logged.
\<close>

definition onmessage ::
  "(handler \<Rightarrow> jsval \<Rightarrow> bool) \<Rightarrow> int \<Rightarrow> js_error + jsval \<Rightarrow> ws_service \<Rightarrow> ws_service \<times> event list" where
  "onmessage hb now parsed ws =
    (case parsed of
       Inl e \<Rightarrow> (ws, [Logged LogError ''Error parsing WebSocket message:''])
     | Inr message \<Rightarrow>
         (case and_then (Returned (), ws, [Logged LogInfo ''WebSocket message received:''])
                 (handleMessage hb now message) of
            (Returned u, ws', evs) \<Rightarrow> (ws', evs)
          | (Threw e, ws', evs) \<Rightarrow> (ws', evs @ [Logged LogError ''Error parsing WebSocket message:''])))"

subsection \<open>Connection life cycle\<close>

text \<open>Lines 112-117 and 102-109.\<close>

definition stopHeartbeat :: "ws_service \<Rightarrow> ws_service \<times> event list" where
  "stopHeartbeat ws =
    (if heartbeatInterval ws then (ws\<lparr>heartbeatInterval := False\<rparr>, [ClearInterval]) else (ws, []))"

definition startHeartbeat :: "ws_service \<Rightarrow> ws_service \<times> event list" where
  "startHeartbeat ws =
    (case stopHeartbeat ws of
       (ws', evs) \<Rightarrow> (ws'\<lparr>heartbeatInterval := True\<rparr>, evs @ [SetInterval Heartbeat 30000]))"

text \<open>
  Lines 21-35 and 86. \<open>sock\<close> is the socket that \<^verbatim>\<open>new WebSocket(url)\<close> creates. An empty
  url is falsy, like the default \<^verbatim>\<open>null\<close>.
\<close>

definition connect :: "web_socket \<Rightarrow> string option \<Rightarrow> ws_service \<Rightarrow> ws_service \<times> event list" where
  "connect sock url ws =
    (let ws1 = (case url of
                  None \<Rightarrow> ws
                | Some u \<Rightarrow> if u \<noteq> [] then ws\<lparr>backendUrl := u\<rparr> else ws)
     in case socket ws1 of
          Some s \<Rightarrow>
            if readyState s = OPEN then (ws1, [Logged LogInfo ''WebSocket already connected''])
            else (ws1\<lparr>connectionResolve := True, socket := Some sock\<rparr>, [NewSocket (backendUrl ws1)])
        | None \<Rightarrow> (ws1\<lparr>connectionResolve := True, socket := Some sock\<rparr>, [NewSocket (backendUrl ws1)]))"

text \<open>Lines 37-52.\<close>

definition onopen :: "ws_service \<Rightarrow> ws_service \<times> event list" where
  "onopen ws =
    (let ws1 = ws\<lparr>isConnected := True, reconnectAttempts := 0\<rparr>;
         (ws2, hevs) = startHeartbeat ws1;
         sevs = resubscribeAll ws2
     in (ws2\<lparr>connectionResolve := False\<rparr>,
         [Logged LogInfo ''WebSocket connected successfully''] @ hevs @ sevs
         @ (if connectionResolve ws2 then [ResolveConnection] else [])))"

definition connection_failed_message :: "nat \<Rightarrow> jsval" where
  "connection_failed_message attempts =
    JObj [(''type'', JStr ''connection_failed''),
          (''data'', JObj [(''attempts'', JNum (int attempts))])]"

text \<open>Lines 66-80.\<close>

definition onclose ::
  "(handler \<Rightarrow> jsval \<Rightarrow> bool) \<Rightarrow> int \<Rightarrow> ws_service \<Rightarrow> unit completion \<times> ws_service \<times> event list" where
  "onclose hb now ws =
    (let ws1 = ws\<lparr>isConnected := False\<rparr>;
         (ws2, hevs) = stopHeartbeat ws1;
         evs = Logged LogInfo ''WebSocket disconnected:'' # hevs
     in if reconnectAttempts ws2 < maxReconnectAttempts ws2
        then (Returned (),
              ws2\<lparr>reconnectAttempts := reconnectAttempts ws2 + 1\<rparr>,
              evs @ [Logged LogInfo ''Attempting to reconnect'', SetTimeout Reconnect (reconnectInterval ws2)])
        else and_then (Returned (), ws2, evs @ [Logged LogError ''Max reconnection attempts reached''])
               (handleMessage hb now (connection_failed_message (reconnectAttempts ws2))))"

text \<open>Lines 90-99.\<close>

definition disconnect :: "ws_service \<Rightarrow> ws_service \<times> event list" where
  "disconnect ws =
    (case stopHeartbeat ws of
       (ws1, evs) \<Rightarrow>
         (case socket ws1 of
            None \<Rightarrow> (ws1, evs)
          | Some s \<Rightarrow>
              (ws1\<lparr>socket := None, isConnected := False, reconnectAttempts := 0, subscriptions := []\<rparr>,
               evs @ [CloseSocket])))"

text \<open>The handlers registered for a message type.\<close>

definition registered :: "ws_service \<Rightarrow> string \<Rightarrow> handler list" where
  "registered ws k = (case lookup_handlers (messageHandlers ws) k of Handlers hs \<Rightarrow> hs | _ \<Rightarrow> [])"

text \<open>
  What a trace holds: the timers it set, the handler calls it made, the frames it sent and
  the lines it logged at a level.
\<close>

fun timeouts :: "event list \<Rightarrow> (timer_action \<times> nat) list" where
  "timeouts [] = []"
| "timeouts (SetTimeout a ms # evs) = (a, ms) # timeouts evs"
| "timeouts (e # evs) = timeouts evs"

fun invocations :: "event list \<Rightarrow> (handler \<times> jsval) list" where
  "invocations [] = []"
| "invocations (Invoked h arg # evs) = (h, arg) # invocations evs"
| "invocations (e # evs) = invocations evs"

fun frames_sent :: "event list \<Rightarrow> frame list" where
  "frames_sent [] = []"
| "frames_sent (Sent f # evs) = f # frames_sent evs"
| "frames_sent (e # evs) = frames_sent evs"

fun logged :: "log_level \<Rightarrow> event list \<Rightarrow> string list" where
  "logged l [] = []"
| "logged l (Logged l' s # evs) = (if l' = l then s # logged l evs else logged l evs)"
| "logged l (e # evs) = logged l evs"

section \<open>ServerDetail (pages/ServerDetail.js)\<close>

text \<open>
  \<^verbatim>\<open>parseInt(s)\<close> with no radix: leading white space is skipped, a sign is read, a prefix
  \<^verbatim>\<open>0x\<close> or \<^verbatim>\<open>0X\<close> selects radix 16, and the longest run of digits of the radix is the value.
  \<open>None\<close> is \<^verbatim>\<open>NaN\<close>, returned when there is no digit. White space is the ASCII white space
  (tab, line feed, vertical tab, form feed, carriage return, space).
\<close>

definition is_space :: "char \<Rightarrow> bool" where
  "is_space c = (of_char c \<in> {9, 10, 11, 12, 13, 32 :: nat})"

definition digit_value :: "nat \<Rightarrow> char \<Rightarrow> nat option" where
  "digit_value radix c =
    (let n = (of_char c :: nat);
         v = (if 48 \<le> n \<and> n \<le> 57 then Some (n - 48)
              else if 97 \<le> n \<and> n \<le> 122 then Some (n - 87)
              else if 65 \<le> n \<and> n \<le> 90 then Some (n - 55)
              else None)
     in case v of None \<Rightarrow> None | Some d \<Rightarrow> if d < radix then Some d else None)"

fun leading_digits :: "nat \<Rightarrow> string \<Rightarrow> nat list" where
  "leading_digits radix [] = []"
| "leading_digits radix (c # cs) =
     (case digit_value radix c of None \<Rightarrow> [] | Some d \<Rightarrow> d # leading_digits radix cs)"

definition digits_value :: "nat \<Rightarrow> nat list \<Rightarrow> nat" where
  "digits_value radix ds = foldl (\<lambda>acc d. acc * radix + d) 0 ds"

definition parseInt :: "string \<Rightarrow> int option" where
  "parseInt s =
    (let s1 = dropWhile is_space s;
         negative = (case s1 of [] \<Rightarrow> False | c # cs \<Rightarrow> c = CHR ''-'');
         s2 = (case s1 of [] \<Rightarrow> [] | c # cs \<Rightarrow> if c = CHR ''-'' \<or> c = CHR ''+'' then cs else s1);
         hex = (case s2 of c # x # cs \<Rightarrow> c = CHR ''0'' \<and> (x = CHR ''x'' \<or> x = CHR ''X'') | _ \<Rightarrow> False);
         radix = (if hex then 16 else 10);
         s3 = (if hex then drop 2 s2 else s2);
         ds = leading_digits radix s3
     in if ds = [] then None
        else Some ((if negative then - 1 else 1) * int (digits_value radix ds)))"

text \<open>\<^verbatim>\<open>v === parseInt(id)\<close>: \<^verbatim>\<open>NaN\<close> is identical to nothing.\<close>

definition is_number :: "jsval \<Rightarrow> int option \<Rightarrow> bool" where
  "is_number v r = (case r of None \<Rightarrow> False | Some n \<Rightarrow> v = JNum n)"

text \<open>
  The component state the two handlers write. \<open>server\<close> is what \<^verbatim>\<open>getServer\<close> returned or
  \<^verbatim>\<open>null\<close>; \<open>lastUpdate\<close> is a time in milliseconds.
\<close>

record server_detail =
  server :: jsval
  realtimeMetrics :: jsval
  lastUpdate :: "int option"

text \<open>Line 63: \<^verbatim>\<open>prev ? { ...prev, status: data.status, updated_at: data.timestamp } : null\<close>.\<close>

definition with_status :: "jsval \<Rightarrow> jsval \<Rightarrow> jsval" where
  "with_status data prev =
    (if truthy prev
     then JObj (AList.update ''updated_at'' (get data ''timestamp'')
                 (AList.update ''status'' (get data ''status'') (own_props prev)))
     else JNull)"

text \<open>
  Lines 60-66. \<open>id_param\<close> is the route parameter \<^verbatim>\<open>id\<close> and \<open>now\<close> is \<^verbatim>\<open>new Date()\<close>. Reading
  \<^verbatim>\<open>data.server_id\<close> throws when \<^verbatim>\<open>data\<close> is \<^verbatim>\<open>null\<close> or \<^verbatim>\<open>undefined\<close>.
\<close>

definition handleServerStatusUpdate ::
  "string \<Rightarrow> int \<Rightarrow> jsval \<Rightarrow> server_detail \<Rightarrow> unit completion \<times> server_detail" where
  "handleServerStatusUpdate id_param now data st =
    (case read_prop data ''server_id'' of
       Inl e \<Rightarrow> (Threw e, st)
     | Inr server_id \<Rightarrow>
         if is_number server_id (parseInt id_param)
         then (Returned (), st\<lparr>server := with_status data (server st), lastUpdate := Some now\<rparr>)
         else (Returned (), st))"

text \<open>Lines 68-74.\<close>

definition handleServerMetricsUpdate ::
  "string \<Rightarrow> int \<Rightarrow> jsval \<Rightarrow> server_detail \<Rightarrow> unit completion \<times> server_detail" where
  "handleServerMetricsUpdate id_param now data st =
    (case read_prop data ''server_id'' of
       Inl e \<Rightarrow> (Threw e, st)
     | Inr server_id \<Rightarrow>
         if is_number server_id (parseInt id_param)
         then (Returned (), st\<lparr>realtimeMetrics := get data ''metrics'', lastUpdate := Some now\<rparr>)
         else (Returned (), st))"

section \<open>ApiService (services/apiService.js)\<close>

text \<open>
  An error as the loop sees it: the \<^verbatim>\<open>Error\<close> the loop itself throws for a response that
  is not ok, a TypeError whose message mentions \<^verbatim>\<open>fetch\<close> (how a network failure shows,
  and the only error the \<^verbatim>\<open>catch\<close> retries), any other exception, and \<open>NoError\<close> for the
  \<^verbatim>\<open>undefined\<close> that \<^verbatim>\<open>lastError\<close> holds before the first failure.
\<close>

datatype api_error = HttpError string | NetworkError | OtherError | NoError

text \<open>
  What one \<^verbatim>\<open>fetch\<close> of the loop comes to: an exception, or a response with its status,
  the outcome of computing the error message (lines 29-30) and the outcome of reading the
  body (lines 47-52); each of the two may throw.
\<close>

datatype fetch_outcome =
    Response nat "api_error + string" "api_error + string"
  | FetchThrows api_error

record api_service =
  retryAttempts :: nat
  retryDelay :: nat

text \<open>Lines 5-9.\<close>

definition new_ApiService :: api_service where
  "new_ApiService = \<lparr> retryAttempts = 3, retryDelay = 1000 \<rparr>"

text \<open>
  Lines 26-52, the body of the \<^verbatim>\<open>try\<close> in attempt number \<open>attempt\<close>: it returns a value,
  waits and continues with the next attempt (a server error before the last attempt), or
  throws.
\<close>

datatype try_result = Return string | Continue | Throw api_error

definition try_body :: "api_service \<Rightarrow> nat \<Rightarrow> fetch_outcome \<Rightarrow> try_result" where
  "try_body api attempt outcome =
    (case outcome of
       FetchThrows e \<Rightarrow> Throw e
     | Response status errorMessage body \<Rightarrow>
         if \<not> (200 \<le> status \<and> status \<le> 299) then
           (case errorMessage of
              Inl e \<Rightarrow> Throw e
            | Inr message \<Rightarrow>
                if 400 \<le> status \<and> status < 500 then Throw (HttpError message)
                else if attempt < retryAttempts api then Continue
                else Throw (HttpError message))
         else (case body of Inl e \<Rightarrow> Throw e | Inr content \<Rightarrow> Return content))"

text \<open>
  Lines 24-72, the loop from a given attempt on. \<open>fetch n\<close> is the outcome of the fetch of
  attempt \<open>n\<close>, \<open>lastError\<close> the variable of that name and \<open>delays\<close> the delays waited so
  far. The result is every delay waited, in order, with the value returned or the error
  thrown. Lines 53-68: an error thrown inside the \<^verbatim>\<open>try\<close> is caught and becomes
  \<^verbatim>\<open>lastError\<close>; a TypeError that mentions \<^verbatim>\<open>fetch\<close> is retried before the last attempt;
  anything else leaves the loop, and line 72 throws \<^verbatim>\<open>lastError\<close>.
\<close>

function request_from ::
  "api_service \<Rightarrow> (nat \<Rightarrow> fetch_outcome) \<Rightarrow> nat \<Rightarrow> api_error \<Rightarrow> nat list
     \<Rightarrow> nat list \<times> (api_error + string)" where
  "request_from api fetch attempt lastError delays =
    (if attempt \<le> retryAttempts api then
       (case try_body api attempt (fetch attempt) of
          Return content \<Rightarrow> (delays, Inr content)
        | Continue \<Rightarrow>
            request_from api fetch (attempt + 1) lastError (delays @ [retryDelay api * attempt])
        | Throw error \<Rightarrow>
            if error = NetworkError \<and> attempt < retryAttempts api
            then request_from api fetch (attempt + 1) error (delays @ [retryDelay api * attempt])
            else (delays, Inl error))
     else (delays, Inl lastError))"
  by pat_completeness auto
termination
  by (relation "measure (\<lambda>(api, fetch, attempt, lastError, delays). retryAttempts api + 1 - attempt)")
    (auto simp: try_body_def split: fetch_outcome.splits sum.splits if_splits)

declare request_from.simps [simp del]

text \<open>Lines 12-73.\<close>

definition request :: "api_service \<Rightarrow> (nat \<Rightarrow> fetch_outcome) \<Rightarrow> nat list \<times> (api_error + string)" where
  "request api fetch = request_from api fetch 1 NoError []"

section \<open>Example environments\<close>

text \<open>
  Handlers that never throw, a socket that is open and accepts every frame, one that is open
  and rejects every frame, and one that never opens.
\<close>

definition quiet_handlers :: "handler \<Rightarrow> jsval \<Rightarrow> bool" where
  "quiet_handlers h arg = False"

definition open_socket :: web_socket where
  "open_socket = \<lparr> readyState = OPEN, send_throws = (\<lambda>f. False) \<rparr>"

definition broken_socket :: web_socket where
  "broken_socket = \<lparr> readyState = OPEN, send_throws = (\<lambda>f. True) \<rparr>"

definition closed_socket :: web_socket where
  "closed_socket = \<lparr> readyState = CLOSED, send_throws = (\<lambda>f. False) \<rparr>"

definition always_network_error :: "nat \<Rightarrow> fetch_outcome" where
  "always_network_error attempt = FetchThrows NetworkError"

section \<open>The two retry loops side by side\<close>

text \<open>
  What each loop decides after a failure, as a function of its base delay, its cap and the
  number \<open>r\<close> of retries already made: \<open>Some d\<close> to retry after \<open>d\<close> milliseconds, \<open>None\<close> to
  stop. For the WebSocket service this is the timer that \<^verbatim>\<open>onclose\<close> sets; for the API
  service it is the delay the loop waits after the failure of attempt \<open>r + 1\<close> when every
  fetch fails with a network error.
\<close>

definition ws_retry_decision :: "nat \<Rightarrow> nat \<Rightarrow> nat \<Rightarrow> nat option" where
  "ws_retry_decision base cap r =
    (case onclose quiet_handlers 0
            (new_WebSocketService\<lparr>reconnectInterval := base, maxReconnectAttempts := cap,
                                   reconnectAttempts := r\<rparr>) of
       (c, ws', evs) \<Rightarrow> (case timeouts evs of [] \<Rightarrow> None | (a, ms) # rest \<Rightarrow> Some ms))"

definition api_retry_decision :: "nat \<Rightarrow> nat \<Rightarrow> nat \<Rightarrow> nat option" where
  "api_retry_decision base cap r =
    (let delays = fst (request \<lparr> retryAttempts = cap, retryDelay = base \<rparr> always_network_error)
     in if r < length delays then Some (delays ! r) else None)"

text \<open>
  The WebSocket reconnect loop when the connection keeps failing: a \<^verbatim>\<open>close\<close> event that
  sets a timer is followed by the \<^verbatim>\<open>connect\<close> the timer calls, whose socket \<open>sock\<close> closes
  again; a \<^verbatim>\<open>close\<close> event that sets no timer ends the loop. \<open>n\<close> bounds the number of
  \<^verbatim>\<open>close\<close> events looked at.
\<close>

fun reconnect_run ::
  "(handler \<Rightarrow> jsval \<Rightarrow> bool) \<Rightarrow> web_socket \<Rightarrow> nat \<Rightarrow> ws_service \<Rightarrow> ws_service \<times> event list" where
  "reconnect_run hb sock 0 ws = (ws, [])"
| "reconnect_run hb sock (Suc n) ws =
     (case onclose hb 0 ws of
        (c, ws1, evs1) \<Rightarrow>
          if timeouts evs1 = [] then (ws1, evs1)
          else (case connect sock None ws1 of
                  (ws2, evs2) \<Rightarrow>
                    (case reconnect_run hb sock n ws2 of
                       (ws3, evs3) \<Rightarrow> (ws3, evs1 @ evs2 @ evs3))))"

section \<open>Alert Evaluation Engine\<close>

text \<open>
  Modelled from the spec: the Alert Evaluation Engine runs in the backend, whose code is not
  among the sources (only the frontend that displays its events is). The definitions of this
  section follow sections 3 and 4.4 of the specification: the data of a rule and of an
  event, and the state machine of one (rule, host) pair.
\<close>

datatype comparator = Gt | Ge | Lt | Le | Eq

datatype alert_state = Inactive | Active | Acknowledged | Resolved

record alert_rule =
  rule_comparator :: comparator
  threshold :: rat
  cooldown_duration :: int

record alert_event =
  state :: alert_state
  triggered_at :: int
  last_notified_at :: int
  resolved_at :: "int option"

text \<open>
  Modelled from the spec: whether the comparator of a rule holds between a metric value and
  the threshold (the engine's code is not among the sources).
\<close>

fun holds :: "comparator \<Rightarrow> rat \<Rightarrow> rat \<Rightarrow> bool" where
  "holds Gt v t = (v > t)"
| "holds Ge v t = (v \<ge> t)"
| "holds Lt v t = (v < t)"
| "holds Le v t = (v \<le> t)"
| "holds Eq v t = (v = t)"

text \<open>
  Modelled from the spec: the events of one (rule, host) pair, newest first, and the state of
  the pair, which is that of its newest event; a pair without events is inactive (the
  engine's code is not among the sources).
\<close>

definition pair_state :: "alert_event list \<Rightarrow> alert_state" where
  "pair_state events = (case events of [] \<Rightarrow> Inactive | e # es \<Rightarrow> state e)"

text \<open>
  Modelled from the spec: one evaluation of a rule against the latest metric of a host, at
  time \<open>t\<close> (the engine's code is not among the sources). The value \<open>None\<close> is "unavailable"
  and changes nothing. When the comparator holds and the pair has no live event (none at
  all, or the newest is resolved), a new active event is created in front of the history and
  notified. When it holds and a live event exists, no event is created; the notification is
  repeated only once the cooldown has passed since the last one. When it does not hold, a
  live event becomes resolved. The result is the events and the notifications dispatched,
  each the time and the state notified.
\<close>

definition evaluate ::
  "alert_rule \<Rightarrow> int \<Rightarrow> rat option \<Rightarrow> alert_event list \<Rightarrow> alert_event list \<times> (int \<times> alert_state) list" where
  "evaluate rule t metric events =
    (case metric of
       None \<Rightarrow> (events, [])
     | Some v \<Rightarrow>
         if holds (rule_comparator rule) v (threshold rule) then
           (if pair_state events = Inactive \<or> pair_state events = Resolved
            then (\<lparr> state = Active, triggered_at = t, last_notified_at = t, resolved_at = None \<rparr> # events,
                  [(t, Active)])
            else (case events of
                    [] \<Rightarrow> (events, [])
                  | e # es \<Rightarrow>
                      if t - last_notified_at e \<ge> cooldown_duration rule
                      then (e\<lparr>last_notified_at := t\<rparr> # es, [(t, state e)])
                      else (events, [])))
         else
           (case events of
              [] \<Rightarrow> (events, [])
            | e # es \<Rightarrow>
                if state e = Active \<or> state e = Acknowledged
                then (e\<lparr>state := Resolved, resolved_at := Some t\<rparr> # es, [(t, Resolved)])
                else (events, [])))"

text \<open>
  Modelled from the spec: the external acknowledge call, which takes an active event to
  acknowledged (the engine's code is not among the sources).
\<close>

definition acknowledge :: "alert_event list \<Rightarrow> alert_event list" where
  "acknowledge events =
    (case events of
       [] \<Rightarrow> []
     | e # es \<Rightarrow> if state e = Active then e\<lparr>state := Acknowledged\<rparr> # es else events)"

text \<open>
  Modelled from the spec: a stream of timed metric samples evaluated in order (the engine's
  code is not among the sources). The result is the state of the pair after each sample, the
  final events and all notifications.
\<close>

fun evaluate_stream ::
  "alert_rule \<Rightarrow> (int \<times> rat option) list \<Rightarrow> alert_event list
     \<Rightarrow> alert_state list \<times> alert_event list \<times> (int \<times> alert_state) list" where
  "evaluate_stream rule [] events = ([], events, [])"
| "evaluate_stream rule ((t, metric) # samples) events =
     (case evaluate rule t metric events of
        (events1, notes1) \<Rightarrow>
          (case evaluate_stream rule samples events1 of
             (states, events2, notes2) \<Rightarrow> (pair_state events1 # states, events2, notes1 @ notes2)))"

text \<open>
  Modelled from the spec: the number of transitions into the active state along a sequence
  of pair states that starts from \<open>before\<close> (the engine's code is not among the sources).
\<close>

fun activations :: "alert_state \<Rightarrow> alert_state list \<Rightarrow> nat" where
  "activations before [] = 0"
| "activations before (s # states) =
     (if s = Active \<and> before \<noteq> Active \<and> before \<noteq> Acknowledged then 1 else 0) + activations s states"

section \<open>Properties of the AlertManager\<close>

lemma handleNewAlert_length:
  "handleNewAlert now nowIso d prev = Inr new \<Longrightarrow>
     length new \<le> 10 \<and> new \<noteq> [] \<and> hd new = newAlert now nowIso d"
  by (auto simp: handleNewAlert_def split: if_splits)

lemma handleAlertResolved_length:
  "handleAlertResolved d prev = Inr new \<Longrightarrow> length new = length prev"
  by (auto simp: handleAlertResolved_def split: if_splits)

lemma handleAlertUpdated_length:
  "handleAlertUpdated d prev = Inr new \<Longrightarrow> length new = length prev"
  by (auto simp: handleAlertUpdated_def split: if_splits)

lemma handleAcknowledgeAlert_length:
  "length (handleAcknowledgeAlert nowIso a prev) = length prev"
  by (simp add: handleAcknowledgeAlert_def)

lemma handleDismissAlert_length:
  "length (handleDismissAlert a prev) \<le> length prev"
  by (simp add: handleDismissAlert_def)

lemma autoRemoveResolved_length:
  "length (autoRemoveResolved parseDate now prev) \<le> length prev"
  by (simp add: autoRemoveResolved_def)

lemma apply_alert_op_bound:
  "apply_alert_op op prev = Inr new \<Longrightarrow> length prev \<le> 10 \<Longrightarrow> length new \<le> 10"
proof (cases op)
  case (NewAlert now nowIso d)
  then show "apply_alert_op op prev = Inr new \<Longrightarrow> length prev \<le> 10 \<Longrightarrow> length new \<le> 10"
    by (auto simp: handleNewAlert_def split: if_splits)
next
  case (AlertResolved d)
  then show "apply_alert_op op prev = Inr new \<Longrightarrow> length prev \<le> 10 \<Longrightarrow> length new \<le> 10"
    using handleAlertResolved_length by fastforce
next
  case (AlertUpdated d)
  then show "apply_alert_op op prev = Inr new \<Longrightarrow> length prev \<le> 10 \<Longrightarrow> length new \<le> 10"
    using handleAlertUpdated_length by fastforce
next
  case (AcknowledgeAlert nowIso a)
  then show "apply_alert_op op prev = Inr new \<Longrightarrow> length prev \<le> 10 \<Longrightarrow> length new \<le> 10"
    using handleAcknowledgeAlert_length by fastforce
next
  case (DismissAlert a)
  then show "apply_alert_op op prev = Inr new \<Longrightarrow> length prev \<le> 10 \<Longrightarrow> length new \<le> 10"
    using handleDismissAlert_length [of a prev] by fastforce
next
  case (AutoRemove parseDate now)
  then show "apply_alert_op op prev = Inr new \<Longrightarrow> length prev \<le> 10 \<Longrightarrow> length new \<le> 10"
    using autoRemoveResolved_length [of parseDate now prev] by fastforce
qed

lemma run_alert_ops_bound:
  "length alerts \<le> 10 \<Longrightarrow> length (run_alert_ops ops alerts) \<le> 10"
proof (induction ops arbitrary: alerts)
  case Nil
  then show ?case by simp
next
  case (Cons op ops)
  show ?case
  proof (cases "apply_alert_op op alerts")
    case (Inl e)
    with Cons.prems show ?thesis by simp
  next
    case (Inr mid)
    from Inr Cons.prems have "length mid \<le> 10" by (rule apply_alert_op_bound)
    then have "length (run_alert_ops ops mid) \<le> 10" by (rule Cons.IH)
    with Inr show ?thesis by simp
  qed
qed

text \<open>
  Claim C10. The notification list never holds more than ten alerts. A call of
  \<^verbatim>\<open>handleNewAlert\<close> that reaches \<^verbatim>\<open>setAlerts\<close> leaves at most ten alerts with the new one
  first; \<^verbatim>\<open>handleAlertResolved\<close>, \<^verbatim>\<open>handleAlertUpdated\<close>, \<^verbatim>\<open>handleDismissAlert\<close> and the
  periodic removal of resolved alerts never make the list longer; and whatever operations
  run from the initial empty list, the list they reach holds at most ten alerts.
\<close>

theorem alerts_never_exceed_ten:
  "(handleNewAlert now nowIso d prev = Inr new1 \<longrightarrow>
      length new1 \<le> 10 \<and> new1 \<noteq> [] \<and> hd new1 = newAlert now nowIso d)
   \<and> (handleAlertResolved d prev = Inr new2 \<longrightarrow> length new2 \<le> length prev)
   \<and> (handleAlertUpdated d prev = Inr new3 \<longrightarrow> length new3 \<le> length prev)
   \<and> length (handleDismissAlert a prev) \<le> length prev
   \<and> length (autoRemoveResolved parseDate t prev) \<le> length prev
   \<and> length (run_alert_ops ops []) \<le> 10"
proof (intro conjI impI)
  assume "handleNewAlert now nowIso d prev = Inr new1"
  then show "length new1 \<le> 10" "new1 \<noteq> []" "hd new1 = newAlert now nowIso d"
    using handleNewAlert_length by blast+
next
  assume "handleAlertResolved d prev = Inr new2"
  then show "length new2 \<le> length prev" by (simp add: handleAlertResolved_length)
next
  assume "handleAlertUpdated d prev = Inr new3"
  then show "length new3 \<le> length prev" by (simp add: handleAlertUpdated_length)
next
  show "length (handleDismissAlert a prev) \<le> length prev" by (rule handleDismissAlert_length)
next
  show "length (autoRemoveResolved parseDate t prev) \<le> length prev" by (rule autoRemoveResolved_length)
next
  show "length (run_alert_ops ops []) \<le> 10" by (simp add: run_alert_ops_bound)
qed

lemma run_twelve:
  "run_alert_ops (replicate 12 (NewAlert 5 ''now'' (JObj [(''id'', JNum 7)]))) []
     = replicate 10 (newAlert 5 ''now'' (JObj [(''id'', JNum 7)]))"
  by code_simp

theorem alerts_never_exceed_ten_witness:
  "handleNewAlert 5 ''now'' (JObj [(''id'', JNum 7)]) [[(''id'', JNum 7)], [(''id'', JNum 8)]]
      = Inr [newAlert 5 ''now'' (JObj [(''id'', JNum 7)]), [(''id'', JNum 7)], [(''id'', JNum 8)]]
   \<and> length [newAlert 5 ''now'' (JObj [(''id'', JNum 7)]), [(''id'', JNum 7)], [(''id'', JNum 8)]] \<le> 10
   \<and> handleAlertResolved (JObj [(''id'', JNum 7)]) [[(''id'', JNum 7)], [(''id'', JNum 8)]]
      = Inr [[(''id'', JNum 7), (''status'', JStr ''resolved''), (''resolved_at'', JUndefined)],
             [(''id'', JNum 8)]]
   \<and> handleAlertUpdated (JObj [(''id'', JNum 7)]) [[(''id'', JNum 7)], [(''id'', JNum 8)]]
      = Inr [[(''id'', JNum 7)], [(''id'', JNum 8)]]
   \<and> run_alert_ops (replicate 12 (NewAlert 5 ''now'' (JObj [(''id'', JNum 7)]))) []
      = replicate 10 (newAlert 5 ''now'' (JObj [(''id'', JNum 7)]))
   \<and> length (run_alert_ops (replicate 12 (NewAlert 5 ''now'' (JObj [(''id'', JNum 7)]))) []) \<le> 10"
  using alerts_never_exceed_ten [of 5 "''now''" "JObj [(''id'', JNum 7)]"
      "[[(''id'', JNum 7)], [(''id'', JNum 8)]]"
      "[newAlert 5 ''now'' (JObj [(''id'', JNum 7)]), [(''id'', JNum 7)], [(''id'', JNum 8)]]"
      "[[(''id'', JNum 7), (''status'', JStr ''resolved''), (''resolved_at'', JUndefined)], [(''id'', JNum 8)]]"
      "[[(''id'', JNum 7)], [(''id'', JNum 8)]]"
      "[]" "\<lambda>s. None" 0
      "replicate 12 (NewAlert 5 ''now'' (JObj [(''id'', JNum 7)]))"]
    run_twelve
  by (simp add: handleNewAlert_def handleAlertResolved_def handleAlertUpdated_def nullish_def get_o_def spread_over_def)

section \<open>Properties of the WebSocketService\<close>

text \<open>
  Claim C7. \<^verbatim>\<open>sendMessage\<close> never throws, whatever the message and the socket: it always
  returns a boolean. With no socket, or a socket that is not open, nothing is sent, a
  warning is logged and the result is false. When the message serialises and the send
  succeeds, the frame is sent and the result is true. When serialisation or the send
  throws, the error is logged, nothing is sent and the result is false.
\<close>

theorem sendMessage_never_throws:
  "(\<exists>b. fst (sendMessage ws message) = Returned b)
   \<and> ((socket ws = None \<or> (\<exists>s. socket ws = Some s \<and> readyState s \<noteq> OPEN)) \<longrightarrow>
         fst (sendMessage ws message) = Returned False
         \<and> frames_sent (snd (sendMessage ws message)) = []
         \<and> logged LogWarn (snd (sendMessage ws message)) = [''WebSocket not connected. Message not sent:''])
   \<and> (\<forall>s f. socket ws = Some s \<and> readyState s = OPEN \<and> frame_of message = Some f \<and> \<not> send_throws s f \<longrightarrow>
         fst (sendMessage ws message) = Returned True
         \<and> frames_sent (snd (sendMessage ws message)) = [f])
   \<and> (\<forall>s. socket ws = Some s \<and> readyState s = OPEN
          \<and> (frame_of message = None \<or> (\<exists>f. frame_of message = Some f \<and> send_throws s f)) \<longrightarrow>
         fst (sendMessage ws message) = Returned False
         \<and> frames_sent (snd (sendMessage ws message)) = []
         \<and> logged LogError (snd (sendMessage ws message)) = [''Error sending WebSocket message:''])"
  by (auto simp: sendMessage_def send_body_def split: option.splits prod.splits completion.splits)


theorem sendMessage_never_throws_witness:
  "sendMessage new_WebSocketService (OutValue (JObj [(''type'', JStr ''ping'')]))
     = (Returned False, [Logged LogWarn ''WebSocket not connected. Message not sent:''])
   \<and> sendMessage (new_WebSocketService\<lparr>socket := Some open_socket\<rparr>)
        (OutValue (JObj [(''type'', JStr ''ping'')]))
     = (Returned True, [Sent (Json (JObj [(''type'', JStr ''ping'')])), Logged LogInfo ''WebSocket message sent:''])
   \<and> sendMessage (new_WebSocketService\<lparr>socket := Some open_socket\<rparr>)
        OutCyclic
     = (Returned False, [Logged LogError ''Error sending WebSocket message:''])
   \<and> sendMessage (new_WebSocketService\<lparr>socket := Some broken_socket\<rparr>)
        (OutString ''ping'')
     = (Returned False, [Logged LogError ''Error sending WebSocket message:''])"
  using sendMessage_never_throws [of new_WebSocketService "OutValue (JObj [(''type'', JStr ''ping'')])"]
    sendMessage_never_throws [of "new_WebSocketService\<lparr>socket := Some open_socket\<rparr>"
       "OutValue (JObj [(''type'', JStr ''ping'')])"]
    sendMessage_never_throws [of "new_WebSocketService\<lparr>socket := Some open_socket\<rparr>"
       OutCyclic]
    sendMessage_never_throws [of "new_WebSocketService\<lparr>socket := Some broken_socket\<rparr>"
       "OutString ''ping''"]
  by (simp add: sendMessage_def send_body_def frame_of_def new_WebSocketService_def open_socket_def
      broken_socket_def)

lemma invocations_append [simp]: "invocations (xs @ ys) = invocations xs @ invocations ys"
  by (induction xs rule: invocations.induct) auto

lemma timeouts_append [simp]: "timeouts (xs @ ys) = timeouts xs @ timeouts ys"
  by (induction xs rule: timeouts.induct) auto

lemma frames_sent_append [simp]: "frames_sent (xs @ ys) = frames_sent xs @ frames_sent ys"
  by (induction xs rule: frames_sent.induct) auto

lemma invocations_call_handlers:
  "invocations (concat (map (call_handler hb arg tag) hs)) = map (\<lambda>h. (h, arg)) hs"
  by (induction hs) (auto simp: call_handler_def)

lemma timeouts_call_handlers:
  "timeouts (concat (map (call_handler hb arg tag) hs)) = []"
  by (induction hs) (auto simp: call_handler_def)

lemma not_prototype_key_connection_failed:
  "''connection_failed'' \<notin> set object_prototype_keys"
  by (simp add: object_prototype_keys_def)

lemma handleMessage_connection_failed:
  "handleMessage hb now (connection_failed_message n) ws =
     (Returned (), ws,
      [Logged LogInfo ''WebSocket message received:'', Logged LogError ''WebSocket connection failed after'']
      @ concat (map (call_handler hb (connection_failed_message n) ''Error in message handler:'')
          (registered ws ''connection_failed'')))"
  by (auto simp: handleMessage_def connection_failed_message_def get_o_def and_then_def
      system_messages_def realtime_updates_def custom_handlers_def notify_def registered_def
      read_prop_def nullish_def lookup_handlers_def not_prototype_key_connection_failed
      split: option.splits)

lemma stopHeartbeat_fields:
  "stopHeartbeat ws = (ws', evs) \<Longrightarrow>
     reconnectAttempts ws' = reconnectAttempts ws \<and> maxReconnectAttempts ws' = maxReconnectAttempts ws
     \<and> reconnectInterval ws' = reconnectInterval ws \<and> messageHandlers ws' = messageHandlers ws
     \<and> timeouts evs = [] \<and> invocations evs = []"
  by (auto simp: stopHeartbeat_def split: if_splits)





section \<open>Properties of the retry loops\<close>

lemma connect_fields:
  "connect sock url ws = (ws', evs) \<Longrightarrow>
     reconnectAttempts ws' = reconnectAttempts ws \<and> maxReconnectAttempts ws' = maxReconnectAttempts ws
     \<and> reconnectInterval ws' = reconnectInterval ws \<and> messageHandlers ws' = messageHandlers ws
     \<and> timeouts evs = [] \<and> invocations evs = []"
  by (auto simp: connect_def Let_def split: option.splits if_splits)

lemma onclose_general:
  assumes "onclose hb now ws = (c, ws', evs)"
  shows "maxReconnectAttempts ws' = maxReconnectAttempts ws \<and> reconnectInterval ws' = reconnectInterval ws
     \<and> messageHandlers ws' = messageHandlers ws
     \<and> (if reconnectAttempts ws < maxReconnectAttempts ws
         then timeouts evs = [(Reconnect, reconnectInterval ws)]
              \<and> reconnectAttempts ws' = Suc (reconnectAttempts ws)
         else timeouts evs = [] \<and> reconnectAttempts ws' = reconnectAttempts ws)"
proof -
  obtain ws2 hevs where sh: "stopHeartbeat (ws\<lparr>isConnected := False\<rparr>) = (ws2, hevs)"
    by (cases "stopHeartbeat (ws\<lparr>isConnected := False\<rparr>)")
  note f = stopHeartbeat_fields [OF sh]
  show ?thesis
    using assms sh f
    by (auto simp: onclose_def handleMessage_connection_failed and_then_def timeouts_call_handlers)
qed

lemma reconnect_run_timeouts:
  "timeouts (snd (reconnect_run hb sock n ws)) =
     replicate (min n (maxReconnectAttempts ws - reconnectAttempts ws)) (Reconnect, reconnectInterval ws)"
proof (induction n arbitrary: ws)
  case 0
  then show ?case by simp
next
  case (Suc n)
  obtain c ws1 evs1 where oc: "onclose hb 0 ws = (c, ws1, evs1)"
    by (cases "onclose hb 0 ws") auto
  note g = onclose_general [OF oc]
  show ?case
  proof (cases "reconnectAttempts ws < maxReconnectAttempts ws")
    case False
    with g oc show ?thesis by simp
  next
    case True
    obtain ws2 evs2 where cn: "connect sock None ws1 = (ws2, evs2)"
      by (cases "connect sock None ws1") auto
    note f2 = connect_fields [OF cn]
    obtain ws3 evs3 where rr: "reconnect_run hb sock n ws2 = (ws3, evs3)"
      by (cases "reconnect_run hb sock n ws2") auto
    have ih: "timeouts evs3 =
       replicate (min n (maxReconnectAttempts ws2 - reconnectAttempts ws2)) (Reconnect, reconnectInterval ws2)"
      using Suc.IH [of ws2] rr by simp
    have run: "snd (reconnect_run hb sock (Suc n) ws) = evs1 @ evs2 @ evs3"
      using oc cn rr g True by simp
    have "min (Suc n) (maxReconnectAttempts ws - reconnectAttempts ws)
        = Suc (min n (maxReconnectAttempts ws - Suc (reconnectAttempts ws)))"
      using True by (auto simp: min_def)
    with True g f2 ih run show ?thesis by simp
  qed
qed

lemma request_from_delays:
  "\<exists>m. fst (request_from api fetch a e ds) = ds @ map (\<lambda>k. retryDelay api * k) [a..<a + m]"
proof (induction api fetch a e ds rule: request_from.induct)
  case (1 api fetch attempt lastError delays)
  have stop: "\<exists>m. delays = delays @ map (\<lambda>k. retryDelay api * k) [attempt..<attempt + m]"
    by (rule exI [of _ 0]) simp
  have step: "\<exists>m. fst (request_from api fetch (attempt + 1) e' (delays @ [retryDelay api * attempt]))
                 = delays @ map (\<lambda>k. retryDelay api * k) [attempt..<attempt + m]"
    if "\<exists>m. fst (request_from api fetch (attempt + 1) e' (delays @ [retryDelay api * attempt]))
                 = (delays @ [retryDelay api * attempt]) @ map (\<lambda>k. retryDelay api * k) [attempt + 1..<attempt + 1 + m]"
    for e'
  proof -
    from that obtain m where m: "fst (request_from api fetch (attempt + 1) e' (delays @ [retryDelay api * attempt]))
                 = (delays @ [retryDelay api * attempt]) @ map (\<lambda>k. retryDelay api * k) [attempt + 1..<attempt + 1 + m]"
      by blast
    have "[attempt..<attempt + Suc m] = attempt # [attempt + 1..<attempt + 1 + m]"
      by (simp add: upt_rec)
    then show ?thesis using m by (intro exI [of _ "Suc m"]) simp
  qed
  show ?case
  proof (cases "attempt \<le> retryAttempts api")
    case False
    with stop show ?thesis by (subst request_from.simps) simp
  next
    case le: True
    show ?thesis
    proof (cases "try_body api attempt (fetch attempt)")
      case (Return content)
      with le stop show ?thesis by (subst request_from.simps) simp
    next
      case Continue
      with le step [OF "1.IH"(1) [OF le Continue]] show ?thesis
        by (subst request_from.simps) simp
    next
      case (Throw error)
      show ?thesis
      proof (cases "error = NetworkError \<and> attempt < retryAttempts api")
        case True
        with le Throw step [OF "1.IH"(2) [OF le Throw True]] show ?thesis
          by (subst request_from.simps) simp
      next
        case False
        with le Throw stop show ?thesis by (subst request_from.simps) auto
      qed
    qed
  qed
qed

lemma request_from_network_errors:
  "a \<le> retryAttempts api \<Longrightarrow>
     request_from api always_network_error a e ds =
       (ds @ map (\<lambda>k. retryDelay api * k) [a..<retryAttempts api], Inl NetworkError)"
proof (induction "retryAttempts api - a" arbitrary: a e ds)
  case 0
  then have "a = retryAttempts api" by simp
  then show ?case
    by (subst request_from.simps) (simp add: always_network_error_def try_body_def)
next
  case (Suc k)
  then have lt: "a < retryAttempts api" by simp
  then have upt: "[a..<retryAttempts api] = a # [a + 1..<retryAttempts api]"
    by (simp add: upt_rec)
  have "k = retryAttempts api - (a + 1)" using Suc.hyps(2) by simp
  then have "request_from api always_network_error (a + 1) NetworkError (ds @ [retryDelay api * a]) =
       ((ds @ [retryDelay api * a]) @ map (\<lambda>k. retryDelay api * k) [a + 1..<retryAttempts api], Inl NetworkError)"
    using lt by (intro Suc.hyps(1)) simp_all
  with lt upt show ?case
    by (subst request_from.simps) (simp add: always_network_error_def try_body_def)
qed

lemma request_network_errors:
  "fst (request api always_network_error) = map (\<lambda>k. retryDelay api * k) [1..<retryAttempts api]"
proof (cases "1 \<le> retryAttempts api")
  case True
  then show ?thesis by (simp add: request_def request_from_network_errors)
next
  case False
  then show ?thesis
    unfolding request_def by (subst request_from.simps) simp
qed

lemma ws_retry_decision_eq:
  "ws_retry_decision base cap r = (if r < cap then Some base else None)"
proof -
  let ?ws = "new_WebSocketService\<lparr>reconnectInterval := base, maxReconnectAttempts := cap, reconnectAttempts := r\<rparr>"
  obtain c ws' evs where oc: "onclose quiet_handlers 0 ?ws = (c, ws', evs)"
    by (cases "onclose quiet_handlers 0 ?ws") auto
  from onclose_general [OF oc] oc show ?thesis
    by (simp add: ws_retry_decision_def split: if_splits)
qed

lemma api_retry_decision_eq:
  "api_retry_decision base cap r = (if r + 1 < cap then Some (base * (r + 1)) else None)"
  by (auto simp: api_retry_decision_def request_network_errors Let_def)

text \<open>
  Claim C3, as amended. The WebSocket reconnect loop and the HTTP request retry loop are
  two separate loops, each with its own base delay and cap, and they follow different
  policies. After \<open>r\<close> retries the WebSocket loop retries after the fixed base delay as long
  as \<open>r\<close> is below the cap; the HTTP loop retries after the base delay times \<open>r + 1\<close> as long
  as \<open>r + 1\<close> is below the cap. The claim as stated, that both compute delay and stop
  condition by one shared policy function of attempt count, base delay and cap, fails: with
  base 1000 and cap 3 the two differ in the delay after one retry and in whether to retry
  after two.
\<close>

theorem retry_loops_follow_different_policies:
  "ws_retry_decision base cap r = (if r < cap then Some base else None)
   \<and> api_retry_decision base cap r = (if r + 1 < cap then Some (base * (r + 1)) else None)"
  by (simp only: ws_retry_decision_eq api_retry_decision_eq)

theorem retry_loops_share_no_policy_counterexample:
  "ws_retry_decision 1000 3 1 \<noteq> api_retry_decision 1000 3 1
   \<and> ws_retry_decision 1000 3 2 \<noteq> api_retry_decision 1000 3 2"
  by (simp add: ws_retry_decision_eq api_retry_decision_eq)

lemma sorted_multiples:
  "0 < (d::nat) \<Longrightarrow> sorted_wrt (<) (map (\<lambda>k. d * k) [a..<b])"
  by (simp add: sorted_wrt_map sorted_wrt_mono_rel [OF _ sorted_wrt_upt])

text \<open>
  Claim C5, as amended. In the HTTP retry loop of \<^verbatim>\<open>ApiService.request\<close> the delays waited
  are strictly increasing whatever the fetches do, as long as the base delay is positive
  (it is 1000 ms). In the WebSocket reconnect loop the delay does not grow: every reconnect
  is scheduled after the same \<^verbatim>\<open>reconnectInterval\<close>. The claim as stated, that the delay
  strictly increases in both loops, fails on the WebSocket loop: two closes in a row are
  each followed by a reconnect after 5000 ms.
\<close>

theorem api_delay_grows_ws_delay_fixed:
  "(0 < retryDelay api \<longrightarrow> sorted_wrt (<) (fst (request api fetch)))
   \<and> map snd (timeouts (snd (reconnect_run hb sock n ws)))
       = replicate (min n (maxReconnectAttempts ws - reconnectAttempts ws)) (reconnectInterval ws)"
proof (intro conjI impI)
  assume pos: "0 < retryDelay api"
  obtain m where "fst (request api fetch) = [] @ map (\<lambda>k. retryDelay api * k) [1..<1 + m]"
    using request_from_delays [of api fetch 1 NoError "[]"] by (auto simp: request_def)
  with pos show "sorted_wrt (<) (fst (request api fetch))"
    by (simp add: sorted_multiples del: upt_Suc)
next
  show "map snd (timeouts (snd (reconnect_run hb sock n ws)))
       = replicate (min n (maxReconnectAttempts ws - reconnectAttempts ws)) (reconnectInterval ws)"
    by (simp add: reconnect_run_timeouts)
qed

lemma request_new_ApiService_network_errors:
  "fst (request new_ApiService always_network_error) = [1000, 2000]"
  by (simp add: request_network_errors new_ApiService_def upt_rec)

theorem api_delay_grows_ws_delay_fixed_witness:
  "0 < retryDelay new_ApiService
   \<and> fst (request new_ApiService always_network_error) = [1000, 2000]
   \<and> sorted_wrt (<) [1000, 2000 :: nat]
   \<and> map snd (timeouts (snd (reconnect_run quiet_handlers closed_socket 3 new_WebSocketService)))
       = [5000, 5000, 5000]"
  using api_delay_grows_ws_delay_fixed [of new_ApiService always_network_error quiet_handlers
      closed_socket 3 new_WebSocketService]
    request_new_ApiService_network_errors
  by (simp only: reconnect_run_timeouts) (simp add: new_ApiService_def new_WebSocketService_def numeral_3_eq_3)

theorem reconnect_delay_not_increasing_counterexample:
  "\<not> sorted_wrt (<) (map snd (timeouts (snd (reconnect_run quiet_handlers closed_socket 2 new_WebSocketService))))"
  by (simp only: reconnect_run_timeouts) (simp add: new_WebSocketService_def numeral_2_eq_2)

section \<open>Properties of the ServerDetail page\<close>









lemma parseInt_five: "parseInt ''5'' = Some 5"
  by (simp add: parseInt_def is_space_def digit_value_def digits_value_def)



lemma detail_update_for_viewed_server:
  "handleServerMetricsUpdate ''5'' 1000 (JObj [(''server_id'', JNum 5), (''metrics'', JStr ''m'')])
        \<lparr> server = JNull, realtimeMetrics = JNull, lastUpdate = None \<rparr>
     = (Returned (), \<lparr> server = JNull, realtimeMetrics = JStr ''m'', lastUpdate = Some 1000 \<rparr>)
   \<and> handleServerStatusUpdate ''5'' 1000 (JObj [(''server_id'', JNum 5), (''status'', JStr ''offline'')])
        \<lparr> server = JObj [(''id'', JNum 5), (''status'', JStr ''online'')], realtimeMetrics = JNull,
          lastUpdate = None \<rparr>
     = (Returned (),
        \<lparr> server = JObj [(''id'', JNum 5), (''status'', JStr ''offline''), (''updated_at'', JUndefined)],
          realtimeMetrics = JNull, lastUpdate = Some 1000 \<rparr>)
   \<and> handleServerStatusUpdate ''5'' 1000 (JObj [(''server_id'', JStr ''5''), (''status'', JStr ''offline'')])
        \<lparr> server = JNull, realtimeMetrics = JNull, lastUpdate = None \<rparr>
     = (Returned (), \<lparr> server = JNull, realtimeMetrics = JNull, lastUpdate = None \<rparr>)
   \<and> handleServerStatusUpdate ''5'' 1000 JUndefined
        \<lparr> server = JNull, realtimeMetrics = JNull, lastUpdate = None \<rparr>
     = (Threw TypeError, \<lparr> server = JNull, realtimeMetrics = JNull, lastUpdate = None \<rparr>)"
  by (simp add: handleServerMetricsUpdate_def handleServerStatusUpdate_def read_prop_def nullish_def
      is_number_def parseInt_five get_o_def with_status_def)

section \<open>Resubscription on open\<close>











lemma onopen_after_subscribe_five:
  "frames_sent (snd (onopen (fst (subscribe ''server_status'' (Some ''5'')
      (new_WebSocketService\<lparr>socket := Some open_socket\<rparr>)))))
   = [Json (subscribe_message ''server_status'' (JStr ''5''))]"
  by (simp add: onopen_def subscribe_def startHeartbeat_def stopHeartbeat_def resubscribeAll_def
      sendMessage_def send_body_def frame_of_def new_WebSocketService_def open_socket_def
      set_add_def subscription_key_def resubscribe_message_def subscribe_message_def Let_def)



section \<open>Properties of message dispatch\<close>

lemma notify_result:
  "notify hb k arg tag ws =
     (case lookup_handlers (messageHandlers ws) k of
        Inherited \<Rightarrow> (Threw TypeError, ws, [])
      | _ \<Rightarrow> (Returned (), ws, concat (map (call_handler hb arg tag) (registered ws k))))"
  by (simp add: notify_def registered_def split: registry_entry.splits)

lemma notify_state: "notify hb k arg tag ws = (c, ws', evs) \<Longrightarrow> ws' = ws"
  by (auto simp: notify_def split: registry_entry.splits)

lemma notify_invocations:
  "notify hb k arg tag ws = (c, ws', evs) \<Longrightarrow> invocations evs = map (\<lambda>h. (h, arg)) (registered ws k)"
  by (auto simp: notify_result invocations_call_handlers registered_def split: registry_entry.splits)

lemma and_then_Returned:
  "and_then r f = (Returned u, s', evs) \<Longrightarrow>
     \<exists>s1 evs1 evs2. r = (Returned (), s1, evs1) \<and> f s1 = (Returned (), s', evs2) \<and> evs = evs1 @ evs2"
  by (auto simp: and_then_def split: prod.splits completion.splits)

lemma handleMessage_invalid:
  "\<not> truthy message \<or> \<not> truthy (get message ''type'') \<Longrightarrow>
     handleMessage hb now message ws = (Returned (), ws, [Logged LogWarn ''Invalid message format:''])"
  by (auto simp: handleMessage_def split: if_splits)

lemma system_messages_handlers:
  "system_messages hb now message ws = (c, ws', evs) \<Longrightarrow>
     messageHandlers ws' = messageHandlers ws
     \<and> set (map fst (invocations evs)) \<subseteq> set (registered ws (js_to_string (get message ''type'')))"
  by (auto simp: system_messages_def Let_def and_then_def notify_result invocations_call_handlers
      registered_def comp_def split: if_splits registry_entry.splits sum.splits)

lemma realtime_updates_handlers:
  "realtime_updates hb message ws = (c, ws', evs) \<Longrightarrow>
     messageHandlers ws' = messageHandlers ws
     \<and> set (map fst (invocations evs)) \<subseteq> set (registered ws (js_to_string (get message ''type'')))"
  by (auto simp: realtime_updates_def Let_def and_then_def notify_result invocations_call_handlers
      registered_def comp_def split: if_splits registry_entry.splits)

lemma custom_handlers_handlers:
  "custom_handlers hb message ws = (c, ws', evs) \<Longrightarrow>
     messageHandlers ws' = messageHandlers ws
     \<and> invocations evs = map (\<lambda>h. (h, message)) (registered ws (js_to_string (get message ''type'')))"
  by (auto simp: custom_handlers_def notify_result invocations_call_handlers
      registered_def split: if_splits registry_entry.splits)

lemma and_then_cases:
  "and_then r f = (c, s', evs) \<Longrightarrow>
     (\<exists>e. r = (Threw e, s', evs) \<and> c = Threw e)
     \<or> (\<exists>s1 evs1 evs2. r = (Returned (), s1, evs1) \<and> f s1 = (c, s', evs2) \<and> evs = evs1 @ evs2)"
  by (auto simp: and_then_def split: prod.splits completion.splits)

lemma registered_cong: "messageHandlers a = messageHandlers b \<Longrightarrow> registered a k = registered b k"
  by (simp add: registered_def)

lemma and_then_handlers:
  assumes "and_then r f = (c, s', evs)"
    and "r = (c0, s0, evs0)"
    and "messageHandlers s0 = mh \<and> set (map fst (invocations evs0)) \<subseteq> H"
    and "\<And>c1 s1 evs1. f s0 = (c1, s1, evs1) \<Longrightarrow>
           messageHandlers s1 = messageHandlers s0 \<and> set (map fst (invocations evs1)) \<subseteq> H"
  shows "messageHandlers s' = mh \<and> set (map fst (invocations evs)) \<subseteq> H"
proof -
  from and_then_cases [OF assms(1)] show ?thesis
  proof
    assume "\<exists>e. r = (Threw e, s', evs) \<and> c = Threw e"
    with assms(2,3) show ?thesis by auto
  next
    assume "\<exists>s1 evs1 evs2. r = (Returned (), s1, evs1) \<and> f s1 = (c, s', evs2) \<and> evs = evs1 @ evs2"
    then obtain evs2 where f: "f s0 = (c, s', evs2)" and e: "evs = evs0 @ evs2"
      using assms(2) by auto
    from assms(4) [OF f] assms(3) e show ?thesis by auto
  qed
qed

lemma handleMessage_handlers:
  assumes "handleMessage hb now message ws = (c, ws', evs)"
  shows "messageHandlers ws' = messageHandlers ws
     \<and> set (map fst (invocations evs)) \<subseteq> set (registered ws (js_to_string (get message ''type'')))"
proof (cases "\<not> truthy message \<or> \<not> truthy (get message ''type'')")
  case True
  with assms show ?thesis by (auto simp: handleMessage_def split: if_splits)
next
  case False
  let ?k = "js_to_string (get message ''type'')"
  let ?H = "set (registered ws ?k)"
  let ?r0 = "(Returned (), ws, [Logged LogInfo ''WebSocket message received:''])"
  let ?r1 = "and_then ?r0 (system_messages hb now message)"
  let ?r2 = "and_then ?r1 (realtime_updates hb message)"
  obtain c1 ws1 evs1 where r1: "?r1 = (c1, ws1, evs1)" by (cases ?r1) auto
  obtain c2 ws2 evs2 where r2: "?r2 = (c2, ws2, evs2)" by (cases ?r2) auto
  have hm: "and_then ?r2 (custom_handlers hb message) = (c, ws', evs)"
    using assms False by (simp add: handleMessage_def)
  have p1: "messageHandlers ws1 = messageHandlers ws \<and> set (map fst (invocations evs1)) \<subseteq> ?H"
  proof (rule and_then_handlers [OF r1 refl])
    show "messageHandlers ws = messageHandlers ws \<and>
        set (map fst (invocations [Logged LogInfo ''WebSocket message received:''])) \<subseteq> ?H"
      by simp
  next
    fix c1 s1 evs1 assume "system_messages hb now message ws = (c1, s1, evs1)"
    then show "messageHandlers s1 = messageHandlers ws \<and> set (map fst (invocations evs1)) \<subseteq> ?H"
      by (rule system_messages_handlers)
  qed
  have p2: "messageHandlers ws2 = messageHandlers ws \<and> set (map fst (invocations evs2)) \<subseteq> ?H"
  proof (rule and_then_handlers [OF r2 r1 p1])
    fix c1 s1 evs1' assume "realtime_updates hb message ws1 = (c1, s1, evs1')"
    from realtime_updates_handlers [OF this] p1 registered_cong [of ws1 ws ?k]
    show "messageHandlers s1 = messageHandlers ws1 \<and> set (map fst (invocations evs1')) \<subseteq> ?H"
      by simp
  qed
  show ?thesis
  proof (rule and_then_handlers [OF hm r2 p2])
    fix c1 s1 evs1' assume "custom_handlers hb message ws2 = (c1, s1, evs1')"
    from custom_handlers_handlers [OF this] p2 registered_cong [of ws2 ws ?k]
    show "messageHandlers s1 = messageHandlers ws2 \<and> set (map fst (invocations evs1')) \<subseteq> ?H"
      by (simp add: comp_def)
  qed
qed

lemma and_then_state:
  assumes "and_then r f = (c, s', evs)" and "r = (c0, s0, evs0)"
    and "\<And>c1 s1 evs1. f s0 = (c1, s1, evs1) \<Longrightarrow> messageHandlers s1 = messageHandlers s0"
  shows "messageHandlers s' = messageHandlers s0"
  using and_then_cases [OF assms(1)] assms(2,3) by auto

lemma handleMessage_calls_every_handler:
  assumes "handleMessage hb now message ws = (Returned (), ws', evs)"
    and "truthy message" and "truthy (get message ''type'')"
    and "h \<in> set (registered ws (js_to_string (get message ''type'')))"
  shows "(h, message) \<in> set (invocations evs)"
proof -
  let ?k = "js_to_string (get message ''type'')"
  let ?r0 = "(Returned (), ws, [Logged LogInfo ''WebSocket message received:''])"
  let ?r1 = "and_then ?r0 (system_messages hb now message)"
  let ?r2 = "and_then ?r1 (realtime_updates hb message)"
  obtain c1 ws1 evs1 where r1: "?r1 = (c1, ws1, evs1)" by (cases ?r1) auto
  obtain c2 ws2 evs2 where r2: "?r2 = (c2, ws2, evs2)" by (cases ?r2) auto
  have hm: "and_then ?r2 (custom_handlers hb message) = (Returned (), ws', evs)"
    using assms by (simp add: handleMessage_def)
  have p1: "messageHandlers ws1 = messageHandlers ws"
    using and_then_state [OF r1 refl] system_messages_handlers [of hb now message ws] by blast
  have p2: "messageHandlers ws2 = messageHandlers ws1"
    using and_then_state [OF r2 r1] realtime_updates_handlers [of hb message ws1] by blast
  from and_then_cases [OF hm] r2
  obtain evs3 where c3: "custom_handlers hb message ws2 = (Returned (), ws', evs3)" and e: "evs = evs2 @ evs3"
    by auto
  have "registered ws2 ?k = registered ws ?k"
    using p1 p2 by (simp add: registered_def)
  with custom_handlers_handlers [OF c3] assms(4) have "(h, message) \<in> set (invocations evs3)"
    by auto
  with e show ?thesis by simp
qed

lemma notify_returns:
  "lookup_handlers (messageHandlers s) k \<noteq> Inherited \<Longrightarrow> \<exists>evs. notify hb k arg tag s = (Returned (), s, evs)"
  by (simp add: notify_def split: registry_entry.splits)

lemma and_then_returns:
  assumes "\<exists>s1 evs1. f s0 = (Returned (), s1, evs1)"
  shows "\<exists>s1 evs1. and_then (Returned (), s0, evs0) f = (Returned (), s1, evs1)"
  using assms by (auto simp: and_then_def)

lemma not_inherited_error: "lookup_handlers mh ''error'' \<noteq> Inherited"
  by (simp add: lookup_handlers_def object_prototype_keys_def split: option.splits)

lemma not_inherited_key: "k \<notin> set object_prototype_keys \<Longrightarrow> lookup_handlers mh k \<noteq> Inherited"
  by (simp add: lookup_handlers_def split: option.splits)

lemma system_messages_returns:
  assumes "\<not> (get message ''type'' = JStr ''connection_failed'' \<and> nullish (get message ''data''))"
  shows "\<exists>s1 evs1. system_messages hb now message s = (Returned (), s1, evs1)"
proof (cases "get message ''type'' = JStr ''error''")
  case True
  obtain evs where "notify hb ''error'' message ''Error in error handler:'' s = (Returned (), s, evs)"
    using notify_returns [OF not_inherited_error] by blast
  with True show ?thesis by (simp add: system_messages_def Let_def and_then_def)
next
  case False
  with assms show ?thesis
    by (simp add: system_messages_def Let_def read_prop_def)
qed

lemma realtime_updates_returns:
  assumes "js_to_string (get message ''type'') \<notin> set object_prototype_keys"
  shows "\<exists>s1 evs1. realtime_updates hb message s = (Returned (), s1, evs1)"
proof -
  have n: "\<exists>evs. notify hb (js_to_string (get message ''type'')) arg tag s = (Returned (), s, evs)" for arg tag
    using notify_returns [OF not_inherited_key [OF assms]] by blast
  have k: "\<exists>s1 evs1. and_then (Returned (), s, [l]) (notify hb (js_to_string (get message ''type'')) arg tag)
       = (Returned (), s1, evs1)" for l arg tag
    using n [of arg tag] by (intro and_then_returns) blast
  show ?thesis
  proof (cases "get message ''type'' \<in> {JStr ''server_status_update'', JStr ''server_metrics_update'',
      JStr ''alert_created'', JStr ''alert_resolved'', JStr ''server_created'', JStr ''server_updated'',
      JStr ''server_deleted''}")
    case True
    then show ?thesis
      using k [of "Logged LogInfo ''Server status update:''" "get message ''data''" "''Error in server status handler:''"]
        k [of "Logged LogInfo ''Server metrics update:''" "get message ''data''" "''Error in server metrics handler:''"]
        k [of "Logged LogInfo ''New alert created:''" "get message ''data''" "''Error in alert created handler:''"]
        k [of "Logged LogInfo ''Alert resolved:''" "get message ''data''" "''Error in alert resolved handler:''"]
        k [of "Logged LogInfo ''Server change:''" "get message ''data''" "''Error in server change handler:''"]
      by (auto simp: realtime_updates_def Let_def)
  next
    case False
    then show ?thesis by (simp add: realtime_updates_def Let_def)
  qed
qed

lemma handleMessage_returns:
  assumes "\<not> (get message ''type'' = JStr ''connection_failed'' \<and> nullish (get message ''data''))"
    and "js_to_string (get message ''type'') \<notin> set object_prototype_keys"
  shows "fst (handleMessage hb now message ws) = Returned ()"
proof (cases "\<not> truthy message \<or> \<not> truthy (get message ''type'')")
  case True
  then show ?thesis by (auto simp: handleMessage_def split: if_splits)
next
  case False
  let ?r0 = "(Returned (), ws, [Logged LogInfo ''WebSocket message received:''])"
  obtain s1 evs1 where r1: "and_then ?r0 (system_messages hb now message) = (Returned (), s1, evs1)"
    using and_then_returns [where f = "system_messages hb now message" and ?s0.0 = ws,
        OF system_messages_returns [OF assms(1)]]
    by blast
  obtain s2 evs2 where r2: "and_then (Returned (), s1, evs1) (realtime_updates hb message) = (Returned (), s2, evs2)"
    using and_then_returns [where f = "realtime_updates hb message" and ?s0.0 = s1,
        OF realtime_updates_returns [OF assms(2)]]
    by blast
  have "\<exists>s3 evs3. custom_handlers hb message s2 = (Returned (), s3, evs3)"
    using notify_returns [OF not_inherited_key [OF assms(2)]] by (simp add: custom_handlers_def) blast
  from and_then_returns [where f = "custom_handlers hb message" and ?s0.0 = s2, OF this]
  obtain s3 evs3 where "and_then (Returned (), s2, evs2) (custom_handlers hb message) = (Returned (), s3, evs3)"
    by blast
  with False r1 r2 show ?thesis by (simp add: handleMessage_def)
qed

lemma lookup_handlers_update:
  "lookup_handlers (AList.update t hs mh) k = (if k = t then Handlers hs else lookup_handlers mh k)"
  by (simp add: lookup_handlers_def update_conv')

lemma offMessage_removes:
  assumes "offMessage t h ws = (Returned (), ws')"
  shows "registered ws' t = filter (\<lambda>x. x \<noteq> h) (registered ws t)
     \<and> (k \<noteq> t \<longrightarrow> registered ws' k = registered ws k)"
proof (cases "lookup_handlers (messageHandlers ws) t")
  case Absent
  with assms show ?thesis by (simp add: offMessage_def registered_def)
next
  case (Handlers hs)
  with assms have "messageHandlers ws' = AList.update t (filter (\<lambda>x. x \<noteq> h) hs) (messageHandlers ws)"
    by (auto simp: offMessage_def)
  with Handlers show ?thesis by (simp add: registered_def lookup_handlers_update)
next
  case Inherited
  with assms show ?thesis by (simp add: offMessage_def)
qed

lemma offMessage_absent:
  "lookup_handlers (messageHandlers ws) t = Absent \<Longrightarrow> offMessage t h ws = (Returned (), ws)"
  by (simp add: offMessage_def)

lemma removed_handler_not_called:
  assumes "offMessage t h ws = (Returned (), ws')"
    and "js_to_string (get message ''type'') = t"
    and "handleMessage hb now message ws' = (c, ws'', evs)"
  shows "h \<notin> set (map fst (invocations evs))"
proof -
  have "set (map fst (invocations evs)) \<subseteq> set (registered ws' t)"
    using handleMessage_handlers [OF assms(3)] assms(2) by simp
  moreover have "h \<notin> set (registered ws' t)"
    using offMessage_removes [OF assms(1), of t] by simp
  ultimately show ?thesis by blast
qed

lemma other_handlers_still_called:
  assumes "offMessage t h ws = (Returned (), ws')"
    and "truthy message" and "get message ''type'' = JStr t" and "t \<noteq> []"
    and "handleMessage hb now message ws' = (Returned (), ws'', evs)"
    and "h' \<in> set (registered ws t)" and "h' \<noteq> h"
  shows "(h', message) \<in> set (invocations evs)"
proof -
  have "h' \<in> set (registered ws' (js_to_string (get message ''type'')))"
    using offMessage_removes [OF assms(1), of t] assms(3,6,7) by simp
  moreover have "truthy (get message ''type'')" using assms(3,4) by simp
  ultimately show ?thesis
    using assms(2,5) by (intro handleMessage_calls_every_handler [of hb now message ws' ws'' evs])
qed

text \<open>
  Claim C8. After \<^verbatim>\<open>offMessage(type, handler)\<close> the handler is no longer called for messages
  of that type, the other handlers of the type still are, and \<^verbatim>\<open>offMessage\<close> for a type
  without handlers changes nothing and raises no error. The lemmas above prove this for
  every call of \<^verbatim>\<open>offMessage\<close> that returns and every \<^verbatim>\<open>handleMessage\<close> that returns. The code
  breaks the claim at two inputs, evaluated here. On a new service, where no handler is
  registered for any type, \<^verbatim>\<open>offMessage('constructor', h)\<close> throws a TypeError: the registry is
  a plain object, the lookup finds the inherited \<^verbatim>\<open>Object\<close> function, and \<^verbatim>\<open>filter\<close> is not
  a function of it. And with handlers 1 and 2 registered for \<^verbatim>\<open>connection_failed\<close>, after
  handler 1 is removed a message of that type without \<^verbatim>\<open>data\<close> calls no handler at all,
  handler 2 included, because \<^verbatim>\<open>handleMessage\<close> throws before it dispatches.
\<close>

theorem offMessage_failing_inputs:
  "offMessage ''constructor'' 1 new_WebSocketService = (Threw TypeError, new_WebSocketService)
   \<and> offMessage ''connection_failed'' 1
        (new_WebSocketService\<lparr>messageHandlers := [(''connection_failed'', [1, 2])]\<rparr>)
      = (Returned (), new_WebSocketService\<lparr>messageHandlers := [(''connection_failed'', [2])]\<rparr>)
   \<and> handleMessage quiet_handlers 0 (JObj [(''type'', JStr ''connection_failed'')])
        (new_WebSocketService\<lparr>messageHandlers := [(''connection_failed'', [2])]\<rparr>)
      = (Threw TypeError, new_WebSocketService\<lparr>messageHandlers := [(''connection_failed'', [2])]\<rparr>,
         [Logged LogInfo ''WebSocket message received:''])"
  by (simp add: offMessage_def lookup_handlers_def new_WebSocketService_def object_prototype_keys_def
      handleMessage_def and_then_def system_messages_def read_prop_def nullish_def get_o_def)

text \<open>
  Claim C9. \<^verbatim>\<open>handleMessage\<close> is meant to be total: a message that is \<^verbatim>\<open>null\<close>, \<^verbatim>\<open>undefined\<close> or
  without a type is ignored with a warning, and a handler that throws does not keep the
  other handlers of the type from being called; the lemmas above prove both. It is not
  total over all inputs, though. A message of type \<^verbatim>\<open>connection_failed\<close> without \<^verbatim>\<open>data\<close>
  makes it throw a TypeError, at the read of \<^verbatim>\<open>message.data.attempts\<close> on line 231, which
  no \<^verbatim>\<open>try\<close> inside \<^verbatim>\<open>handleMessage\<close> encloses.
\<close>

theorem handleMessage_throws_without_data:
  "fst (handleMessage quiet_handlers 0 (JObj [(''type'', JStr ''connection_failed'')]) new_WebSocketService)
     = Threw TypeError"
  by (simp add: handleMessage_def and_then_def system_messages_def read_prop_def nullish_def get_o_def)

lemma handleMessage_throws_on_inherited_name:
  "fst (handleMessage quiet_handlers 0 (JObj [(''type'', JStr ''constructor'')]) new_WebSocketService)
     = Threw TypeError"
  by (simp add: handleMessage_def and_then_def system_messages_def realtime_updates_def
      custom_handlers_def notify_def lookup_handlers_def new_WebSocketService_def
      object_prototype_keys_def get_o_def)

lemma onmessage_contains_the_throw:
  "onmessage quiet_handlers 0 (Inr (JObj [(''type'', JStr ''connection_failed'')])) new_WebSocketService
     = (new_WebSocketService,
        [Logged LogInfo ''WebSocket message received:'', Logged LogInfo ''WebSocket message received:'',
         Logged LogError ''Error parsing WebSocket message:''])"
  by (simp add: onmessage_def handleMessage_def and_then_def system_messages_def read_prop_def
      nullish_def get_o_def)

section \<open>The interval and the cap never change\<close>

text \<open>
  The reconnect interval and the attempt cap are set by the constructor; no operation of
  the service writes them. So every state the service reaches has the interval and the cap
  of a new service, which is what the theorem on \<^verbatim>\<open>onclose\<close> asks of the state.
\<close>

lemma and_then_invariant:
  assumes "and_then r f = (c, s', evs)" and "r = (c0, s0, evs0)" and "Q s0"
    and "\<And>c1 s1 evs1. f s0 = (c1, s1, evs1) \<Longrightarrow> Q s1"
  shows "Q s'"
  using and_then_cases [OF assms(1)] assms(2,3,4) by auto

lemma system_messages_settings:
  "system_messages hb now message ws = (c, ws', evs) \<Longrightarrow>
     reconnectInterval ws' = reconnectInterval ws \<and> maxReconnectAttempts ws' = maxReconnectAttempts ws"
  by (auto simp: system_messages_def Let_def and_then_def notify_result
      split: if_splits registry_entry.splits sum.splits)

lemma realtime_updates_settings:
  "realtime_updates hb message ws = (c, ws', evs) \<Longrightarrow>
     reconnectInterval ws' = reconnectInterval ws \<and> maxReconnectAttempts ws' = maxReconnectAttempts ws"
  by (auto simp: realtime_updates_def Let_def and_then_def notify_result
      split: if_splits registry_entry.splits)

lemma custom_handlers_settings:
  "custom_handlers hb message ws = (c, ws', evs) \<Longrightarrow>
     reconnectInterval ws' = reconnectInterval ws \<and> maxReconnectAttempts ws' = maxReconnectAttempts ws"
  by (auto simp: custom_handlers_def notify_result split: registry_entry.splits)

lemma handleMessage_settings:
  assumes "handleMessage hb now message ws = (c, ws', evs)"
  shows "reconnectInterval ws' = reconnectInterval ws \<and> maxReconnectAttempts ws' = maxReconnectAttempts ws"
proof (cases "\<not> truthy message \<or> \<not> truthy (get message ''type'')")
  case True
  with assms show ?thesis by (auto simp: handleMessage_def split: if_splits)
next
  case False
  let ?Q = "\<lambda>s. reconnectInterval s = reconnectInterval ws \<and> maxReconnectAttempts s = maxReconnectAttempts ws"
  let ?r0 = "(Returned (), ws, [Logged LogInfo ''WebSocket message received:''])"
  let ?r1 = "and_then ?r0 (system_messages hb now message)"
  let ?r2 = "and_then ?r1 (realtime_updates hb message)"
  obtain c1 ws1 evs1 where r1: "?r1 = (c1, ws1, evs1)" by (cases ?r1) auto
  obtain c2 ws2 evs2 where r2: "?r2 = (c2, ws2, evs2)" by (cases ?r2) auto
  have hm: "and_then ?r2 (custom_handlers hb message) = (c, ws', evs)"
    using assms False by (simp add: handleMessage_def)
  have p1: "?Q ws1"
    by (rule and_then_invariant [where Q = ?Q, OF r1 refl]) (simp_all add: system_messages_settings)
  have p2: "?Q ws2"
    using p1 by (intro and_then_invariant [where Q = ?Q, OF r2 r1]) (simp_all add: realtime_updates_settings)
  show ?thesis
    using p2 by (intro and_then_invariant [where Q = ?Q, OF hm r2]) (simp_all add: custom_handlers_settings)
qed

lemma settings_never_change:
  "reconnectInterval (fst (connect sock url ws)) = reconnectInterval ws
   \<and> maxReconnectAttempts (fst (connect sock url ws)) = maxReconnectAttempts ws
   \<and> reconnectInterval (fst (onopen ws)) = reconnectInterval ws
   \<and> maxReconnectAttempts (fst (onopen ws)) = maxReconnectAttempts ws
   \<and> reconnectInterval (fst (snd (onclose hb now ws))) = reconnectInterval ws
   \<and> maxReconnectAttempts (fst (snd (onclose hb now ws))) = maxReconnectAttempts ws
   \<and> reconnectInterval (fst (onmessage hb now parsed ws)) = reconnectInterval ws
   \<and> maxReconnectAttempts (fst (onmessage hb now parsed ws)) = maxReconnectAttempts ws
   \<and> reconnectInterval (fst (disconnect ws)) = reconnectInterval ws
   \<and> maxReconnectAttempts (fst (disconnect ws)) = maxReconnectAttempts ws
   \<and> reconnectInterval (fst (subscribe t sid ws)) = reconnectInterval ws
   \<and> maxReconnectAttempts (fst (subscribe t sid ws)) = maxReconnectAttempts ws
   \<and> reconnectInterval (fst (unsubscribe t sid ws)) = reconnectInterval ws
   \<and> maxReconnectAttempts (fst (unsubscribe t sid ws)) = maxReconnectAttempts ws
   \<and> reconnectInterval (snd (onMessage t h ws)) = reconnectInterval ws
   \<and> maxReconnectAttempts (snd (onMessage t h ws)) = maxReconnectAttempts ws
   \<and> reconnectInterval (snd (offMessage t h ws)) = reconnectInterval ws
   \<and> maxReconnectAttempts (snd (offMessage t h ws)) = maxReconnectAttempts ws"
proof -
  have c: "reconnectInterval (fst (connect sock url ws)) = reconnectInterval ws
      \<and> maxReconnectAttempts (fst (connect sock url ws)) = maxReconnectAttempts ws"
    using connect_fields [of sock url ws "fst (connect sock url ws)" "snd (connect sock url ws)"] by simp
  have o: "reconnectInterval (fst (onopen ws)) = reconnectInterval ws
      \<and> maxReconnectAttempts (fst (onopen ws)) = maxReconnectAttempts ws"
    by (simp add: onopen_def startHeartbeat_def stopHeartbeat_def Let_def split: prod.splits)
  have cl: "reconnectInterval (fst (snd (onclose hb now ws))) = reconnectInterval ws
      \<and> maxReconnectAttempts (fst (snd (onclose hb now ws))) = maxReconnectAttempts ws"
    using onclose_general [of hb now ws "fst (onclose hb now ws)" "fst (snd (onclose hb now ws))"
        "snd (snd (onclose hb now ws))"] by simp
  have m: "reconnectInterval (fst (onmessage hb now parsed ws)) = reconnectInterval ws
      \<and> maxReconnectAttempts (fst (onmessage hb now parsed ws)) = maxReconnectAttempts ws"
  proof (cases parsed)
    case (Inl e)
    then show ?thesis by (simp add: onmessage_def)
  next
    case (Inr message)
    obtain c1 ws1 evs1 where h: "handleMessage hb now message ws = (c1, ws1, evs1)"
      by (cases "handleMessage hb now message ws") auto
    from handleMessage_settings [OF h] h Inr show ?thesis
      by (simp add: onmessage_def and_then_def split: completion.splits)
  qed
  have d: "reconnectInterval (fst (disconnect ws)) = reconnectInterval ws
      \<and> maxReconnectAttempts (fst (disconnect ws)) = maxReconnectAttempts ws"
    by (simp add: disconnect_def stopHeartbeat_def split: prod.splits option.splits)
  have s: "reconnectInterval (fst (subscribe t sid ws)) = reconnectInterval ws
      \<and> maxReconnectAttempts (fst (subscribe t sid ws)) = maxReconnectAttempts ws
      \<and> reconnectInterval (fst (unsubscribe t sid ws)) = reconnectInterval ws
      \<and> maxReconnectAttempts (fst (unsubscribe t sid ws)) = maxReconnectAttempts ws"
    by (simp add: subscribe_def unsubscribe_def Let_def)
  have h: "reconnectInterval (snd (onMessage t h ws)) = reconnectInterval ws
      \<and> maxReconnectAttempts (snd (onMessage t h ws)) = maxReconnectAttempts ws
      \<and> reconnectInterval (snd (offMessage t h ws)) = reconnectInterval ws
      \<and> maxReconnectAttempts (snd (offMessage t h ws)) = maxReconnectAttempts ws"
    by (simp add: onMessage_def offMessage_def split: registry_entry.splits)
  from c o cl m d s h show ?thesis by blast
qed

section \<open>Properties of the Alert Evaluation Engine\<close>

text \<open>
  Claim C1. For a rule with comparator \<open>>\<close> and threshold 80, evaluated for one host on
  the metric values 75, 85, 85, 70, where the second 85 arrives within the cooldown of the
  first: the pair is inactive after 75, active after the first 85, still active after the
  second, and resolved after 70; it became active exactly once; a single alert event was
  created, the repeated 85 neither creating a second event nor being notified again.
\<close>

theorem threshold_rule_fires_once:
  assumes "rule_comparator rule = Gt" and "threshold rule = 80"
    and "t3 - t2 < cooldown_duration rule"
  shows "evaluate_stream rule [(t1, Some 75), (t2, Some 85), (t3, Some 85), (t4, Some 70)] []
      = ([Inactive, Active, Active, Resolved],
         [\<lparr> state = Resolved, triggered_at = t2, last_notified_at = t2, resolved_at = Some t4 \<rparr>],
         [(t2, Active), (t4, Resolved)])
    \<and> activations Inactive
        (fst (evaluate_stream rule [(t1, Some 75), (t2, Some 85), (t3, Some 85), (t4, Some 70)] [])) = 1"
  using assms by (simp add: evaluate_def pair_state_def)

theorem threshold_rule_fires_once_witness:
  "rule_comparator \<lparr> rule_comparator = Gt, threshold = 80, cooldown_duration = 300 \<rparr> = Gt
   \<and> threshold \<lparr> rule_comparator = Gt, threshold = 80, cooldown_duration = 300 \<rparr> = 80
   \<and> (120::int) - 60 < cooldown_duration \<lparr> rule_comparator = Gt, threshold = 80, cooldown_duration = 300 \<rparr>
   \<and> evaluate_stream \<lparr> rule_comparator = Gt, threshold = 80, cooldown_duration = 300 \<rparr>
        [(0, Some 75), (60, Some 85), (120, Some 85), (180, Some 70)] []
      = ([Inactive, Active, Active, Resolved],
         [\<lparr> state = Resolved, triggered_at = 60, last_notified_at = 60, resolved_at = Some 180 \<rparr>],
         [(60, Active), (180, Resolved)])"
  using threshold_rule_fires_once [of "\<lparr> rule_comparator = Gt, threshold = 80, cooldown_duration = 300 \<rparr>"
      120 60 0 180]
  by simp

end
